theory Spec2Isabelle
  imports Main
begin

section \<open>Python values used by gitlab-lfs-get.py\<close>

subsection \<open>Text\<close>

text \<open>
  A Python \<open>str\<close> is a sequence of Unicode code points, so it is modelled as a list of
  natural numbers. \<open>lit\<close> turns an ASCII literal of the source into such a list.
\<close>

type_synonym str = "nat list"

definition lit :: "string \<Rightarrow> str" where
  "lit cs = map of_char cs"

text \<open>
  The code points for which \<open>str.isspace\<close> holds; \<open>str.strip()\<close> and \<open>str.split()\<close>
  without arguments use the same set.
\<close>

definition isspace :: "nat \<Rightarrow> bool" where
  "isspace c \<longleftrightarrow>
     (9 \<le> c \<and> c \<le> 13) \<or> (28 \<le> c \<and> c \<le> 32) \<or> c = 133 \<or> c = 160 \<or> c = 5760 \<or>
     (8192 \<le> c \<and> c \<le> 8202) \<or> c = 8232 \<or> c = 8233 \<or> c = 8239 \<or> c = 8287 \<or> c = 12288"

definition startswith :: "str \<Rightarrow> str \<Rightarrow> bool" where
  "startswith s p \<longleftrightarrow> take (length p) s = p"

definition strip :: "str \<Rightarrow> str" where
  "strip s = rev (dropWhile isspace (rev (dropWhile isspace s)))"

text \<open>\<open>s.split(sep)\<close> for a one-character separator: never an empty list.\<close>

fun split_sep :: "nat \<Rightarrow> str \<Rightarrow> str list" where
  "split_sep c [] = [[]]"
| "split_sep c (x # xs) =
     (if x = c then [] # split_sep c xs
      else (case split_sep c xs of [] \<Rightarrow> [[x]] | w # ws \<Rightarrow> (x # w) # ws))"

text \<open>\<open>s.split()\<close>: the maximal runs of non-whitespace, in order.\<close>

function split_ws :: "str \<Rightarrow> str list" where
  "split_ws s =
     (case dropWhile isspace s of
        [] \<Rightarrow> []
      | x # w \<Rightarrow> takeWhile (\<lambda>c. \<not> isspace c) (x # w) # split_ws (dropWhile (\<lambda>c. \<not> isspace c) w))"
  by pat_completeness auto
termination
proof (relation "measure length")
  show "wf (measure length)" by simp
next
  fix s :: str and x w
  assume "dropWhile isspace s = x # w"
  then have "length (x # w) \<le> length s"
    by (metis length_dropWhile_le)
  moreover have "length (dropWhile (\<lambda>c. \<not> isspace c) w) \<le> length w"
    by (rule length_dropWhile_le)
  ultimately show "(dropWhile (\<lambda>c. \<not> isspace c) w, s) \<in> measure length"
    by simp
qed

declare split_ws.simps [simp del]

text \<open>
  Iterating over \<open>io.StringIO(text)\<close>: the lines of the text, each with its terminating
  line feed (code point 10) when it has one. No other character ends a line.
\<close>

fun readlines :: "str \<Rightarrow> str list" where
  "readlines [] = []"
| "readlines (c # cs) =
     (if c = 10 then [c] # readlines cs
      else (case readlines cs of [] \<Rightarrow> [[c]] | l # ls \<Rightarrow> (c # l) # ls))"

subsection \<open>Exceptions\<close>

text \<open>
  An exception value carries the classes of its type, most derived first (the method
  resolution order, each class as module and name), the text \<open>str(ex)\<close>, and for an
  HTTP error the status code of the response attached to it.
\<close>

type_synonym cls = "string \<times> string"

record exc =
  exc_mro :: "cls list"
  exc_str :: str
  exc_status :: "int option"

definition isinstance :: "exc \<Rightarrow> cls \<Rightarrow> bool" where
  "isinstance e c \<longleftrightarrow> c \<in> set (exc_mro e)"

text \<open>\<open>type(ex).__name__\<close>\<close>

definition type_name :: "exc \<Rightarrow> str" where
  "type_name e = (case exc_mro e of [] \<Rightarrow> [] | (m, n) # _ \<Rightarrow> lit n)"

definition builtin :: "string \<Rightarrow> cls" where
  "builtin n = (''builtins'', n)"

definition base_classes :: "cls list" where
  "base_classes = [builtin ''Exception'', builtin ''BaseException'', builtin ''object'']"

definition IndexError :: "str \<Rightarrow> exc" where
  "IndexError m =
     \<lparr>exc_mro = builtin ''IndexError'' # builtin ''LookupError'' # base_classes,
      exc_str = m, exc_status = None\<rparr>"

definition UnboundLocalError :: "string \<Rightarrow> exc" where
  "UnboundLocalError v =
     \<lparr>exc_mro = builtin ''UnboundLocalError'' # builtin ''NameError'' # base_classes,
      exc_str = lit ''cannot access local variable '' @ [39] @ lit v @ [39] @
                lit '' where it is not associated with a value'',
      exc_status = None\<rparr>"

type_synonym 'a result = "exc + 'a"

text \<open>\<open>xs[1]\<close> on a list\<close>

definition item1 :: "'a list \<Rightarrow> 'a result" where
  "item1 xs =
     (case xs of
        _ # y # _ \<Rightarrow> Inr y
      | _ \<Rightarrow> Inl (IndexError (lit ''list index out of range'')))"

section \<open>The pointer parser of get_lfs_meta\<close>

text \<open>
  The loop of \<open>get_lfs_meta\<close> over the lines of the response text. The local variables
  \<open>oid\<close> and \<open>size\<close> (called \<open>sz\<close> below) are unbound (\<open>None\<close>) until a line assigns them; every later
  matching line assigns again.
\<close>

fun get_lfs_meta_loop :: "str list \<Rightarrow> str option \<Rightarrow> str option \<Rightarrow> (str option \<times> str option) result" where
  "get_lfs_meta_loop [] oid sz = Inr (oid, sz)"
| "get_lfs_meta_loop (l # ls) oid sz =
     (if startswith l (lit ''oid'') then
        (case item1 (split_sep 58 (strip l)) of
           Inl e \<Rightarrow> Inl e
         | Inr v \<Rightarrow> get_lfs_meta_loop ls (Some v) sz)
      else if startswith l (lit ''size'') then
        (case item1 (split_ws (strip l)) of
           Inl e \<Rightarrow> Inl e
         | Inr v \<Rightarrow> get_lfs_meta_loop ls oid (Some v))
      else get_lfs_meta_loop ls oid sz)"

text \<open>
  Lines 126 to 133: the loop, then \<open>return oid, size\<close>, which reads \<open>oid\<close> first and
  raises \<open>UnboundLocalError\<close> for the first of the two names that is unbound.
\<close>

definition get_lfs_meta_parse :: "str \<Rightarrow> (str \<times> str) result" where
  "get_lfs_meta_parse text =
     (case get_lfs_meta_loop (readlines text) None None of
        Inl e \<Rightarrow> Inl e
      | Inr (None, _) \<Rightarrow> Inl (UnboundLocalError ''oid'')
      | Inr (Some oid, None) \<Rightarrow> Inl (UnboundLocalError ''size'')
      | Inr (Some oid, Some sz) \<Rightarrow> Inr (oid, sz))"


subsection \<open>What a parsed pointer is, in terms of the text\<close>

text \<open>
  The lines the loop acts on, and the pieces of a line it keeps: the text between the
  first colon (code point 58) and the next colon or the end, and the second maximal run
  of non-whitespace characters.
\<close>

definition oid_lines :: "str \<Rightarrow> str list" where
  "oid_lines text = filter (\<lambda>l. startswith l (lit ''oid'')) (readlines text)"

definition size_lines :: "str \<Rightarrow> str list" where
  "size_lines text = filter (\<lambda>l. startswith l (lit ''size'')) (readlines text)"

definition between_colons :: "str \<Rightarrow> str" where
  "between_colons s = takeWhile (\<lambda>c. c \<noteq> 58) (tl (dropWhile (\<lambda>c. c \<noteq> 58) s))"

definition second_token :: "str \<Rightarrow> str" where
  "second_token s =
     takeWhile (\<lambda>c. \<not> isspace c)
       (dropWhile isspace (dropWhile (\<lambda>c. \<not> isspace c) (dropWhile isspace s)))"

definition has_second_token :: "str \<Rightarrow> bool" where
  "has_second_token s \<longleftrightarrow>
     dropWhile isspace (dropWhile (\<lambda>c. \<not> isspace c) (dropWhile isspace s)) \<noteq> []"

definition last_opt :: "'a list \<Rightarrow> 'a option \<Rightarrow> 'a option" where
  "last_opt xs d = (if xs = [] then d else Some (last xs))"

text \<open>
  The reading of the specification: the object id is all the text after the first colon
  of the first line starting with "oid", trimmed; the size is the second token of the
  first line starting with "size".
\<close>

definition claimed_oid :: "str \<Rightarrow> str" where
  "claimed_oid text = strip (tl (dropWhile (\<lambda>c. c \<noteq> 58) (hd (oid_lines text))))"

definition claimed_size :: "str \<Rightarrow> str" where
  "claimed_size text = second_token (hd (size_lines text))"


section \<open>Library values and functions the program uses\<close>

subsection \<open>Further exceptions\<close>

text \<open>\<open>repr\<close> of a string that has no quote or escape in it (the keys of the source).\<close>

definition quoted :: "str \<Rightarrow> str" where
  "quoted s = [39] @ s @ [39]"

text \<open>\<open>KeyError(k)\<close>: its text is the \<open>repr\<close> of the key, which is what the argument is.\<close>

definition KeyError :: "str \<Rightarrow> exc" where
  "KeyError r =
     \<lparr>exc_mro = builtin ''KeyError'' # builtin ''LookupError'' # base_classes,
      exc_str = r, exc_status = None\<rparr>"

definition TypeError :: "str \<Rightarrow> exc" where
  "TypeError m = \<lparr>exc_mro = builtin ''TypeError'' # base_classes, exc_str = m, exc_status = None\<rparr>"

definition AttributeError :: "str \<Rightarrow> exc" where
  "AttributeError m =
     \<lparr>exc_mro = builtin ''AttributeError'' # base_classes, exc_str = m, exc_status = None\<rparr>"

definition RuntimeError :: "str \<Rightarrow> exc" where
  "RuntimeError m =
     \<lparr>exc_mro = builtin ''RuntimeError'' # base_classes, exc_str = m, exc_status = None\<rparr>"

definition UnicodeEncodeError :: "str \<Rightarrow> exc" where
  "UnicodeEncodeError m =
     \<lparr>exc_mro = builtin ''UnicodeEncodeError'' # builtin ''UnicodeError'' #
                 builtin ''ValueError'' # base_classes,
      exc_str = m, exc_status = None\<rparr>"

text \<open>
  The classes the handlers of \<open>request\<close> name. \<open>HTTPError\<close> is imported from
  \<open>requests.exceptions\<close> and \<open>NewConnectionError\<close> from urllib3; \<open>ConnectionError\<close>
  is not imported, so the name is Python's built-in class.
\<close>

definition cls_HTTPError :: cls where
  "cls_HTTPError = (''requests.exceptions'', ''HTTPError'')"

definition cls_NewConnectionError :: cls where
  "cls_NewConnectionError = (''urllib3.exceptions'', ''NewConnectionError'')"

definition cls_ConnectionError :: cls where
  "cls_ConnectionError = builtin ''ConnectionError''"

definition cls_Exception :: cls where
  "cls_Exception = builtin ''Exception''"

definition cls_KeyError :: cls where
  "cls_KeyError = builtin ''KeyError''"

text \<open>The error \<open>raise_for_status\<close> raises, with the response's status code attached.\<close>

definition HTTPError :: "str \<Rightarrow> int \<Rightarrow> exc" where
  "HTTPError m status =
     \<lparr>exc_mro = cls_HTTPError # (''requests.exceptions'', ''RequestException'') #
                 builtin ''OSError'' # base_classes,
      exc_str = m, exc_status = Some status\<rparr>"

subsection \<open>Numbers as text\<close>

fun dec :: "nat \<Rightarrow> str" where
  "dec n = (if n < 10 then [48 + n] else dec (n div 10) @ [48 + n mod 10])"

declare dec.simps [simp del]

text \<open>\<open>str(i)\<close> for an integer\<close>

definition str_int :: "int \<Rightarrow> str" where
  "str_int i = (if i < 0 then 45 # dec (nat (- i)) else dec (nat i))"

definition hex_lower :: "nat \<Rightarrow> nat" where
  "hex_lower d = (if d < 10 then 48 + d else 87 + d)"

definition hex_upper :: "nat \<Rightarrow> nat" where
  "hex_upper d = (if d < 10 then 48 + d else 55 + d)"

subsection \<open>UTF-8, base64 and URL quoting\<close>

type_synonym bytes = "nat list"

definition is_surrogate :: "nat \<Rightarrow> bool" where
  "is_surrogate c \<longleftrightarrow> 55296 \<le> c \<and> c \<le> 57343"

text \<open>The bytes of one code point (code points are below 1114112).\<close>

definition utf8_char :: "nat \<Rightarrow> bytes" where
  "utf8_char c =
     (if c < 128 then [c]
      else if c < 2048 then [192 + c div 64, 128 + c mod 64]
      else if c < 65536 then [224 + c div 4096, 128 + (c div 64) mod 64, 128 + c mod 64]
      else [240 + c div 262144, 128 + (c div 4096) mod 64, 128 + (c div 64) mod 64,
            128 + c mod 64])"

text \<open>
  The text of the \<open>UnicodeEncodeError\<close> of the strict UTF-8 codec: it names the first
  run of surrogate code points.
\<close>

definition surrogate_message :: "str \<Rightarrow> str" where
  "surrogate_message s =
     (let i = length (takeWhile (\<lambda>c. \<not> is_surrogate c) s);
          run = takeWhile is_surrogate (drop i s);
          c = hd run
      in if length run = 1 then
           quoted (lit ''utf-8'') @ lit '' codec can't encode character '' @
           quoted ([92, 117, hex_lower (c div 4096), hex_lower ((c div 256) mod 16),
                    hex_lower ((c div 16) mod 16), hex_lower (c mod 16)]) @
           lit '' in position '' @ dec i @ lit '': surrogates not allowed''
         else
           quoted (lit ''utf-8'') @ lit '' codec can't encode characters in position '' @
           dec i @ [45] @ dec (i + length run - 1) @ lit '': surrogates not allowed'')"

text \<open>\<open>s.encode("UTF-8")\<close>\<close>

definition utf8_encode :: "str \<Rightarrow> bytes result" where
  "utf8_encode s =
     (if list_ex is_surrogate s then Inl (UnicodeEncodeError (surrogate_message s))
      else Inr (concat (map utf8_char s)))"

definition b64_char :: "nat \<Rightarrow> nat" where
  "b64_char n =
     (if n < 26 then 65 + n else if n < 52 then 71 + n else if n < 62 then n - 4
      else if n = 62 then 43 else 47)"

text \<open>\<open>base64.b64encode\<close>; its result is ASCII, so \<open>.decode("ascii")\<close> keeps the values.\<close>

fun b64encode :: "bytes \<Rightarrow> bytes" where
  "b64encode [] = []"
| "b64encode [a] = [b64_char (a div 4), b64_char ((a mod 4) * 16), 61, 61]"
| "b64encode [a, b] =
     [b64_char (a div 4), b64_char ((a mod 4) * 16 + b div 16), b64_char ((b mod 16) * 4), 61]"
| "b64encode (a # b # c # r) =
     [b64_char (a div 4), b64_char ((a mod 4) * 16 + b div 16),
      b64_char ((b mod 16) * 4 + c div 64), b64_char (c mod 64)] @ b64encode r"

text \<open>
  \<open>urllib.parse.quote\<close> and \<open>quote_plus\<close>: letters, digits and \<open>_.-~\<close> are always
  kept, the characters of \<open>safe\<close> too, every other byte of the UTF-8 encoding becomes
  \<open>%XX\<close>. \<open>quote_plus\<close> (called with its default \<open>safe=''\<close>) keeps the space through
  \<open>quote\<close> and then replaces it by \<open>+\<close>.
\<close>

definition always_safe :: "nat \<Rightarrow> bool" where
  "always_safe b \<longleftrightarrow>
     (65 \<le> b \<and> b \<le> 90) \<or> (97 \<le> b \<and> b \<le> 122) \<or> (48 \<le> b \<and> b \<le> 57) \<or>
     b = 95 \<or> b = 46 \<or> b = 45 \<or> b = 126"

definition quote_byte :: "str \<Rightarrow> nat \<Rightarrow> str" where
  "quote_byte safe b =
     (if always_safe b \<or> b \<in> set safe then [b]
      else [37, hex_upper (b div 16), hex_upper (b mod 16)])"

definition quote :: "str \<Rightarrow> str \<Rightarrow> str result" where
  "quote s safe =
     (case utf8_encode s of
        Inl e \<Rightarrow> Inl e
      | Inr bs \<Rightarrow> Inr (concat (map (quote_byte safe) bs)))"

definition quote_plus :: "str \<Rightarrow> str result" where
  "quote_plus s =
     (if 32 \<notin> set s then quote s []
      else (case quote s [32] of
              Inl e \<Rightarrow> Inl e
            | Inr q \<Rightarrow> Inr (map (\<lambda>c. if c = 32 then 43 else c) q)))"

subsection \<open>Decoded JSON\<close>

text \<open>
  The value \<open>resp.json()\<close> returns. An object is the list of the items of the Python
  dict (its keys are distinct); a number with a fraction or an exponent is kept as its
  source text.
\<close>

datatype json =
    JNull
  | JBool bool
  | JInt int
  | JFloat str
  | JStr str
  | JArr "json list"
  | JObj "(str \<times> json) list"

text \<open>\<open>v[k]\<close> for a string key \<open>k\<close> of the source\<close>

definition getitem :: "json \<Rightarrow> string \<Rightarrow> json result" where
  "getitem v k =
     (case v of
        JObj kvs \<Rightarrow>
          (case map_of kvs (lit k) of
             None \<Rightarrow> Inl (KeyError (quoted (lit k)))
           | Some x \<Rightarrow> Inr x)
      | JArr _ \<Rightarrow> Inl (TypeError (lit ''list indices must be integers or slices, not str''))
      | JStr _ \<Rightarrow> Inl (TypeError (lit ''string indices must be integers, not '' @ quoted (lit ''str'')))
      | JNull \<Rightarrow> Inl (TypeError (quoted (lit ''NoneType'') @ lit '' object is not subscriptable''))
      | JBool _ \<Rightarrow> Inl (TypeError (quoted (lit ''bool'') @ lit '' object is not subscriptable''))
      | JInt _ \<Rightarrow> Inl (TypeError (quoted (lit ''int'') @ lit '' object is not subscriptable''))
      | JFloat _ \<Rightarrow> Inl (TypeError (quoted (lit ''float'') @ lit '' object is not subscriptable'')))"

text \<open>\<open>v[0]\<close>. No dict decoded from JSON has the key \<open>0\<close>: its keys are strings.\<close>

definition getitem0 :: "json \<Rightarrow> json result" where
  "getitem0 v =
     (case v of
        JArr xs \<Rightarrow>
          (case xs of
             [] \<Rightarrow> Inl (IndexError (lit ''list index out of range''))
           | x # _ \<Rightarrow> Inr x)
      | JObj _ \<Rightarrow> Inl (KeyError (lit ''0''))
      | JStr s \<Rightarrow>
          (case s of
             [] \<Rightarrow> Inl (IndexError (lit ''string index out of range''))
           | c # _ \<Rightarrow> Inr (JStr [c]))
      | JNull \<Rightarrow> Inl (TypeError (quoted (lit ''NoneType'') @ lit '' object is not subscriptable''))
      | JBool _ \<Rightarrow> Inl (TypeError (quoted (lit ''bool'') @ lit '' object is not subscriptable''))
      | JInt _ \<Rightarrow> Inl (TypeError (quoted (lit ''int'') @ lit '' object is not subscriptable''))
      | JFloat _ \<Rightarrow> Inl (TypeError (quoted (lit ''float'') @ lit '' object is not subscriptable'')))"


section \<open>The environment of a run\<close>

text \<open>
  A request as \<open>requests\<close> receives it. A field is \<open>None\<close> when the call does not pass
  the keyword, so that the library's default applies (certificate verification on, no
  timeout, no streaming).
\<close>

record http_call =
  call_method :: str
  call_url :: json
  call_headers :: json
  call_timeout :: "int option"
  call_verify :: "bool option"
  call_json :: "json option"
  call_stream :: "bool option"

text \<open>
  A response: status line, final URL, decoded text, the outcome of \<open>resp.json()\<close>, the
  value of the Content-Length header when the headers have one, and the body as the
  chunks \<open>iter_content(chunk_size=1024)\<close> yields, ended by the end of the stream or by an exception.
\<close>

record response =
  resp_status_code :: int
  resp_reason :: str
  resp_url :: str
  resp_text :: str
  resp_json :: "json result"
  resp_content_length :: "str option"
  resp_chunks :: "bytes list"
  resp_stream_error :: "exc option"

text \<open>The destination \<open>OUTPUT / Path(name)\<close>\<close>

record out_path =
  out_dir :: str
  out_name :: str

text \<open>What \<open>parse_args\<close> returns: the three positionals and the optional directory.\<close>

record cli_args =
  arg_project :: str
  arg_ref :: str
  arg_file :: str
  arg_output_dir :: "str option"

text \<open>
  Everything outside the program. \<open>environ\<close> is \<open>os.environ\<close> after \<open>load_dotenv()\<close>;
  \<open>parse_args\<close> is the outcome of argparse on the command line (it raises
  \<open>SystemExit\<close> on a usage error); \<open>http\<close> is what \<open>requests\<close> does with a call;
  \<open>py_int\<close> is the built-in \<open>int\<close> on a string, \<open>truediv_int a b\<close> is
  \<open>int(a / b)\<close> with its floating-point division, \<open>py_str\<close> is \<open>str\<close> on a decoded
  JSON value that is not a string; \<open>open_error\<close> and \<open>write_error\<close> say whether
  opening the destination and writing its n-th chunk raise.
\<close>

record world =
  environ :: "str \<Rightarrow> str option"
  parse_args :: "cli_args result"
  path_resolve :: "str \<Rightarrow> str"
  path_cwd :: str
  http :: "http_call \<Rightarrow> response result"
  py_int :: "str \<Rightarrow> int result"
  truediv_int :: "int \<Rightarrow> int \<Rightarrow> int result"
  py_str :: "json \<Rightarrow> str"
  open_error :: "out_path \<Rightarrow> exc option"
  write_error :: "out_path \<Rightarrow> nat \<Rightarrow> exc option"

text \<open>What a run does that can be observed, in order.\<close>

datatype event =
    Log string str
  | Request http_call
  | Open out_path
  | Progress int out_path
  | Write out_path bytes

text \<open>
  A computation with effects: the events it caused and its value or the exception it
  raised. \<open>seq\<close> runs a second computation after a first that did not raise.
\<close>

type_synonym 'a io = "event list \<times> 'a result"

definition seq :: "'a io \<Rightarrow> ('a \<Rightarrow> 'b io) \<Rightarrow> 'b io" where
  "seq m f =
     (case m of
        (es, Inl e) \<Rightarrow> (es, Inl e)
      | (es, Inr x) \<Rightarrow> (case f x of (es', r) \<Rightarrow> (es @ es', r)))"

definition emit :: "event \<Rightarrow> unit io" where
  "emit e = ([e], Inr ())"

definition pure :: "'a result \<Rightarrow> 'a io" where
  "pure r = ([], r)"

text \<open>\<open>Response.raise_for_status\<close> of the requests library\<close>

definition raise_for_status :: "response \<Rightarrow> exc option" where
  "raise_for_status r =
     (if 400 \<le> resp_status_code r \<and> resp_status_code r < 500 then
        Some (HTTPError (str_int (resp_status_code r) @ lit '' Client Error: '' @ resp_reason r @
                         lit '' for url: '' @ resp_url r) (resp_status_code r))
      else if 500 \<le> resp_status_code r \<and> resp_status_code r < 600 then
        Some (HTTPError (str_int (resp_status_code r) @ lit '' Server Error: '' @ resp_reason r @
                         lit '' for url: '' @ resp_url r) (resp_status_code r))
      else None)"

section \<open>The program\<close>

subsection \<open>Module-level configuration (lines 28 to 45)\<close>

text \<open>The module's globals once configuration and command line are read.\<close>

record globals =
  GIT_HOST :: str
  GIT_TOKEN :: str
  BASIC_AUTH :: str
  PROJECT :: str
  REF :: str
  FILE :: str
  OUTPUT :: str

text \<open>How the process ends: an exit status, or an exception no handler caught.\<close>

datatype ending = Exit int | Propagated exc

text \<open>\<open>os.environ[k]\<close>\<close>

definition environ_get :: "world \<Rightarrow> string \<Rightarrow> str result" where
  "environ_get w k =
     (case environ w (lit k) of
        None \<Rightarrow> Inl (KeyError (quoted (lit k)))
      | Some v \<Rightarrow> Inr v)"

text \<open>The body of the first \<open>try\<close>: the four variables in order, then the Basic value.\<close>

definition load_config_body :: "world \<Rightarrow> (str \<times> str \<times> str) result" where
  "load_config_body w =
     (case environ_get w ''GIT_HOST'' of Inl e \<Rightarrow> Inl e | Inr host \<Rightarrow>
      case environ_get w ''GIT_TOKEN'' of Inl e \<Rightarrow> Inl e | Inr token \<Rightarrow>
      case environ_get w ''GIT_USER'' of Inl e \<Rightarrow> Inl e | Inr user \<Rightarrow>
      case environ_get w ''GIT_PWD'' of Inl e \<Rightarrow> Inl e | Inr pwd \<Rightarrow>
      case utf8_encode (user @ [58] @ pwd) of Inl e \<Rightarrow> Inl e | Inr bs \<Rightarrow>
      Inr (host, token, lit ''Basic '' @ b64encode bs))"

text \<open>
  The first \<open>try\<close> with its handlers: \<open>KeyError\<close> and any other \<open>Exception\<close> are logged
  and the process exits with status 1. The left value is the way the process ends there.
\<close>

definition load_config :: "world \<Rightarrow> event list \<times> (ending + (str \<times> str \<times> str))" where
  "load_config w =
     (case load_config_body w of
        Inr c \<Rightarrow> ([], Inr c)
      | Inl ex \<Rightarrow>
          if isinstance ex cls_KeyError then
            ([Log ''ERROR'' (lit ''Please setup required env variable: '' @ exc_str ex)],
             Inl (Exit 1))
          else if isinstance ex cls_Exception then
            ([Log ''ERROR'' (lit ''Unexpected: '' @ exc_str ex)], Inl (Exit 1))
          else ([], Inl (Propagated ex)))"

subsection \<open>cli\<close>

definition cli :: "world \<Rightarrow> (str \<times> str \<times> str \<times> str) io" where
  "cli w =
     (case parse_args w of
        Inl e \<Rightarrow> ([], Inl e)
      | Inr args \<Rightarrow>
          ([], Inr (arg_project args, arg_file args, arg_ref args,
                    (case arg_output_dir args of
                       None \<Rightarrow> path_cwd w
                     | Some d \<Rightarrow> if d \<noteq> [] then path_resolve w d else path_cwd w))))"

subsection \<open>request\<close>

text \<open>
  The handlers of the \<open>try\<close> in \<open>request\<close>, in order, for an exception raised by
  \<open>requests.request\<close> or by \<open>raise_for_status\<close>. The result \<open>Inr None\<close> is the
  function returning \<open>None\<close>, where an HTTP error has a status outside 400..599.
\<close>

definition request_handlers :: "exc \<Rightarrow> response option result" where
  "request_handlers ex =
     (if isinstance ex cls_NewConnectionError \<or> isinstance ex cls_ConnectionError then
        Inl (RuntimeError (lit ''Connection failed: '' @ type_name ex))
      else if isinstance ex cls_HTTPError then
        (case exc_status ex of
           None \<Rightarrow>
             Inl (AttributeError (quoted (lit ''NoneType'') @
                    lit '' object has no attribute '' @ quoted (lit ''status_code'')))
         | Some status \<Rightarrow>
             if 400 \<le> status \<and> status < 500 then
               Inl (RuntimeError (lit ''Client Error: '' @ exc_str ex))
             else if 500 \<le> status \<and> status < 600 then
               Inl (RuntimeError (lit ''Server Error: '' @ exc_str ex))
             else Inr None)
      else if isinstance ex cls_Exception then Inl (RuntimeError (exc_str ex))
      else Inl ex)"

text \<open>The dict of a header or body as a JSON object\<close>

definition dict_json :: "(str \<times> str) list \<Rightarrow> json" where
  "dict_json kvs = JObj (map (\<lambda>(k, v). (k, JStr v)) kvs)"

text \<open>Lines 84 to 93: the keyword arguments passed to \<open>requests.request\<close>.\<close>

definition request_params ::
  "str \<Rightarrow> string \<Rightarrow> (str \<times> str) list option \<Rightarrow> (str \<times> json) list option \<Rightarrow> int \<Rightarrow> http_call" where
  "request_params path method header req_data timeout =
     \<lparr>call_method = lit method, call_url = JStr path,
      call_headers = (case header of None \<Rightarrow> JNull | Some h \<Rightarrow> dict_json h),
      call_timeout = Some timeout, call_verify = Some False,
      call_json = (case req_data of
                     None \<Rightarrow> None
                   | Some d \<Rightarrow> if d \<noteq> [] then Some (JObj d) else None),
      call_stream = None\<rparr>"

definition request ::
  "world \<Rightarrow> str \<Rightarrow> string \<Rightarrow> (str \<times> str) list option \<Rightarrow> (str \<times> json) list option \<Rightarrow> int \<Rightarrow>
   response option io" where
  "request w path method header req_data timeout =
     (if method \<notin> set [''GET'', ''POST'', ''PATCH'', ''DELETE''] then
        ([], Inl (RuntimeError (lit ''Unsupport method: '' @ lit method)))
      else
        ([Request (request_params path method header req_data timeout)],
         (case http w (request_params path method header req_data timeout) of
            Inl ex \<Rightarrow> request_handlers ex
          | Inr resp \<Rightarrow>
              (case raise_for_status resp of
                 Some ex \<Rightarrow> request_handlers ex
               | None \<Rightarrow> Inr (Some resp)))))"

subsection \<open>get_lfs_meta\<close>

definition get_lfs_meta_url :: "globals \<Rightarrow> str result" where
  "get_lfs_meta_url g =
     (case quote_plus (PROJECT g) of
        Inl e \<Rightarrow> Inl e
      | Inr q \<Rightarrow>
          Inr (lit ''http://'' @ GIT_HOST g @ lit ''/api/v4/projects/'' @ q @
               lit ''/repository/files/'' @ FILE g @ lit ''/raw?ref='' @ REF g))"

definition get_lfs_meta :: "world \<Rightarrow> globals \<Rightarrow> (str \<times> str) io" where
  "get_lfs_meta w g =
     seq (emit (Log ''INFO'' (lit ''Get LFS meta-data''))) (\<lambda>_.
     seq (pure (get_lfs_meta_url g)) (\<lambda>path.
     seq (request w path ''GET'' (Some [(lit ''PRIVATE-TOKEN'', GIT_TOKEN g)]) None 30) (\<lambda>resp.
     (case resp of
        None \<Rightarrow>
          pure (Inl (AttributeError (quoted (lit ''NoneType'') @
                  lit '' object has no attribute '' @ quoted (lit ''text''))))
      | Some r \<Rightarrow> pure (get_lfs_meta_parse (resp_text r))))))"

subsection \<open>get_lfs_downloand_info\<close>

definition batch_req_data :: "globals \<Rightarrow> str \<Rightarrow> int \<Rightarrow> (str \<times> json) list" where
  "batch_req_data g oid n =
     [(lit ''operation'', JStr (lit ''download'')),
      (lit ''objects'', JArr [JObj [(lit ''oid'', JStr oid), (lit ''size'', JInt n)]]),
      (lit ''transfers'', JArr [JStr (lit ''lfs-standalone-file''), JStr (lit ''basic'')]),
      (lit ''ref'', JObj [(lit ''name'', JStr (REF g))])]"

text \<open>Lines 166 to 168: the first object's download action.\<close>

definition batch_download_action :: "json \<Rightarrow> (json \<times> json) result" where
  "batch_download_action data =
     (case getitem data ''objects'' of Inl e \<Rightarrow> Inl e | Inr objs \<Rightarrow>
      case getitem0 objs of Inl e \<Rightarrow> Inl e | Inr obj \<Rightarrow>
      case getitem obj ''actions'' of Inl e \<Rightarrow> Inl e | Inr a1 \<Rightarrow>
      case getitem a1 ''download'' of Inl e \<Rightarrow> Inl e | Inr d1 \<Rightarrow>
      case getitem d1 ''href'' of Inl e \<Rightarrow> Inl e | Inr href \<Rightarrow>
      case getitem obj ''actions'' of Inl e \<Rightarrow> Inl e | Inr a2 \<Rightarrow>
      case getitem a2 ''download'' of Inl e \<Rightarrow> Inl e | Inr d2 \<Rightarrow>
      case getitem d2 ''header'' of Inl e \<Rightarrow> Inl e | Inr header \<Rightarrow>
      Inr (href, header))"

definition get_lfs_downloand_info :: "world \<Rightarrow> globals \<Rightarrow> str \<Rightarrow> str \<Rightarrow> (json \<times> json) io" where
  "get_lfs_downloand_info w g oid sz =
     seq (emit (Log ''INFO'' (lit ''Get download info''))) (\<lambda>_.
     seq (pure (py_int w sz)) (\<lambda>n.
     seq (request w (lit ''http://'' @ GIT_HOST g @ lit ''/'' @ PROJECT g @
                     lit ''.git/info/lfs/objects/batch'')
            ''POST''
            (Some [(lit ''Authorization'', BASIC_AUTH g),
                   (lit ''Content-Type'', lit ''application/json'')])
            (Some (batch_req_data g oid n)) 30) (\<lambda>resp.
     (case resp of
        None \<Rightarrow>
          pure (Inl (AttributeError (quoted (lit ''NoneType'') @
                  lit '' object has no attribute '' @ quoted (lit ''json''))))
      | Some r \<Rightarrow>
          seq (pure (resp_json r)) (\<lambda>data. pure (batch_download_action data))))))"

subsection \<open>dl_target_file\<close>

text \<open>The \<open>for\<close> loop: one write per chunk, in order; \<open>i\<close> counts the writes done.\<close>

fun write_chunks :: "world \<Rightarrow> out_path \<Rightarrow> nat \<Rightarrow> bytes list \<Rightarrow> unit io" where
  "write_chunks w out i [] = ([], Inr ())"
| "write_chunks w out i (c # cs) =
     (case write_error w out i of
        Some e \<Rightarrow> ([], Inl e)
      | None \<Rightarrow> (case write_chunks w out (Suc i) cs of (es, r) \<Rightarrow> (Write out c # es, r)))"

text \<open>\<open>str(url)\<close> in the log line\<close>

definition str_json :: "world \<Rightarrow> json \<Rightarrow> str" where
  "str_json w v = (case v of JStr s \<Rightarrow> s | _ \<Rightarrow> py_str w v)"

definition download_call :: "json \<Rightarrow> json \<Rightarrow> http_call" where
  "download_call url header =
     \<lparr>call_method = lit ''GET'', call_url = url, call_headers = header,
      call_timeout = None, call_verify = None, call_json = None, call_stream = Some True\<rparr>"

definition dl_target_file :: "world \<Rightarrow> json \<Rightarrow> json \<Rightarrow> out_path \<Rightarrow> unit io" where
  "dl_target_file w url header out =
     seq (emit (Log ''INFO'' (lit ''Download file: '' @ str_json w url))) (\<lambda>_.
     seq (emit (Request (download_call url header))) (\<lambda>_.
     seq (pure (http w (download_call url header))) (\<lambda>r.
     seq (pure (case raise_for_status r of Some e \<Rightarrow> Inl e | None \<Rightarrow> Inr ())) (\<lambda>_.
     seq (pure (case resp_content_length r of
                  None \<Rightarrow> Inl (KeyError (quoted (lit ''content-length'')))
                | Some v \<Rightarrow> Inr v)) (\<lambda>cl.
     seq (pure (py_int w cl)) (\<lambda>n.
     seq (pure (truediv_int w n 1024)) (\<lambda>num_bars.
     seq (pure (case open_error w out of Some e \<Rightarrow> Inl e | None \<Rightarrow> Inr ())) (\<lambda>_.
     seq (emit (Open out)) (\<lambda>_.
     seq (emit (Progress num_bars out)) (\<lambda>_.
     seq (write_chunks w out 0 (resp_chunks r)) (\<lambda>_.
     pure (case resp_stream_error r of Some e \<Rightarrow> Inl e | None \<Rightarrow> Inr ()))))))))))))"

subsection \<open>The final try (lines 193 to 205) and the whole run\<close>

definition main_body :: "world \<Rightarrow> str \<times> str \<times> str \<Rightarrow> unit io" where
  "main_body w c =
     (case c of (host, token, basic) \<Rightarrow>
     seq (cli w) (\<lambda>(project, file, ref, output).
     let g = \<lparr>GIT_HOST = host, GIT_TOKEN = token, BASIC_AUTH = basic, PROJECT = project,
              REF = ref, FILE = file, OUTPUT = output\<rparr>
     in
     seq (get_lfs_meta w g) (\<lambda>(oid, sz).
     seq (get_lfs_downloand_info w g oid sz) (\<lambda>(href, header).
     dl_target_file w href header
       \<lparr>out_dir = output, out_name = last (split_sep 47 file)\<rparr>))))"

text \<open>
  \<open>except Exception as ex: LOG.error(...)\<close>, after which the script has no statement
  left and the interpreter exits with status 0.
\<close>

definition main_try :: "world \<Rightarrow> str \<times> str \<times> str \<Rightarrow> event list \<times> ending" where
  "main_try w c =
     (case main_body w c of
        (es, Inr _) \<Rightarrow> (es, Exit 0)
      | (es, Inl ex) \<Rightarrow>
          if isinstance ex cls_Exception then
            (es @ [Log ''ERROR'' (lit ''Unexpected Error: '' @ exc_str ex)], Exit 0)
          else (es, Propagated ex))"

definition run :: "world \<Rightarrow> event list \<times> ending" where
  "run w =
     (case load_config w of
        (es, Inl ending) \<Rightarrow> (es, ending)
      | (es, Inr c) \<Rightarrow> (case main_try w c of (es', ending) \<Rightarrow> (es @ es', ending)))"


section \<open>Notions used to state the properties\<close>

definition required_env :: "string list" where
  "required_env = [''GIT_HOST'', ''GIT_TOKEN'', ''GIT_USER'', ''GIT_PWD'']"

text \<open>The required variables that are absent, in the order the program reads them.\<close>

definition missing_env :: "world \<Rightarrow> string list" where
  "missing_env w = filter (\<lambda>k. environ w (lit k) = None) required_env"

text \<open>The requests among the events of a run, in order.\<close>

fun requests_of :: "event list \<Rightarrow> http_call list" where
  "requests_of [] = []"
| "requests_of (Request c # es) = c # requests_of es"
| "requests_of (_ # es) = requests_of es"

text \<open>The pointer request and the batch request, as the program issues them.\<close>

definition meta_call :: "str \<Rightarrow> str \<Rightarrow> http_call" where
  "meta_call path token = request_params path ''GET'' (Some [(lit ''PRIVATE-TOKEN'', token)]) None 30"

definition batch_call :: "globals \<Rightarrow> str \<Rightarrow> int \<Rightarrow> http_call" where
  "batch_call g oid n =
     request_params
       (lit ''http://'' @ GIT_HOST g @ lit ''/'' @ PROJECT g @ lit ''.git/info/lfs/objects/batch'')
       ''POST''
       (Some [(lit ''Authorization'', BASIC_AUTH g), (lit ''Content-Type'', lit ''application/json'')])
       (Some (batch_req_data g oid n)) 30"




section \<open>An example environment\<close>

text \<open>
  A run in which everything succeeds: the four variables are set, the command line asks
  for \<open>data/model.bin\<close> of \<open>group/name\<close> at \<open>main\<close>, the pointer endpoint returns a
  pointer for 5 bytes, the batch endpoint one object with a download action, and the
  storage streams the 5 bytes in two chunks. The variants below change one answer each.
\<close>

definition ok_response :: response where
  "ok_response =
     \<lparr>resp_status_code = 200, resp_reason = lit ''OK'', resp_url = lit ''http://gitlab.example.com/'',
      resp_text = [], resp_json = Inr JNull, resp_content_length = None,
      resp_chunks = [], resp_stream_error = None\<rparr>"

definition pointer_response :: response where
  "pointer_response =
     ok_response\<lparr>resp_text := lit ''version https://git-lfs.github.com/spec/v1'' @ [10] @
                                lit ''oid sha256:deadbeef'' @ [10] @ lit ''size 5'' @ [10]\<rparr>"

definition batch_response :: response where
  "batch_response =
     ok_response\<lparr>resp_json := Inr (JObj [(lit ''objects'',
        JArr [JObj [(lit ''oid'', JStr (lit ''deadbeef'')), (lit ''size'', JInt 5),
                    (lit ''actions'', JObj [(lit ''download'',
                       JObj [(lit ''href'', JStr (lit ''https://storage/x'')),
                             (lit ''header'', JObj [])])])]])])\<rparr>"

definition download_response :: response where
  "download_response =
     ok_response\<lparr>resp_content_length := Some (lit ''5''), resp_chunks := [[1, 2, 3], [4, 5]]\<rparr>"

definition example_http :: "response \<Rightarrow> response \<Rightarrow> response \<Rightarrow> http_call \<Rightarrow> response result" where
  "example_http pointer batch download c =
     (if call_stream c = Some True then Inr download
      else if call_method c = lit ''GET'' then Inr pointer
      else Inr batch)"

text \<open>\<open>int\<close> on a string of ASCII digits; the example needs no other input.\<close>

definition example_int :: "str \<Rightarrow> int result" where
  "example_int s =
     (if s \<noteq> [] \<and> list_all (\<lambda>c. 48 \<le> c \<and> c \<le> 57) s
      then Inr (foldl (\<lambda>a c. 10 * a + int (c - 48)) 0 s)
      else Inl \<lparr>exc_mro = builtin ''ValueError'' # base_classes,
                exc_str = lit ''invalid literal for int() with base 10'', exc_status = None\<rparr>)"

text \<open>
  \<open>int(a / b)\<close> where the float quotient is exact (magnitudes below 2 to the 53, as in the
  example): the quotient truncated towards zero.
\<close>

definition example_truediv :: "int \<Rightarrow> int \<Rightarrow> int result" where
  "example_truediv a b =
     (if b = 0 then
        Inl \<lparr>exc_mro = builtin ''ZeroDivisionError'' # builtin ''ArithmeticError'' # base_classes,
             exc_str = lit ''division by zero'', exc_status = None\<rparr>
      else Inr (sgn a * sgn b * (\<bar>a\<bar> div \<bar>b\<bar>)))"

definition example_environ :: "str \<Rightarrow> str option" where
  "example_environ =
     map_of [(lit ''GIT_HOST'', lit ''gitlab.example.com''), (lit ''GIT_TOKEN'', lit ''tok''),
             (lit ''GIT_USER'', lit ''user''), (lit ''GIT_PWD'', lit ''pass'')]"

definition example_world :: world where
  "example_world =
     \<lparr>environ = example_environ,
      parse_args = Inr \<lparr>arg_project = lit ''group/name'', arg_ref = lit ''main'',
                        arg_file = lit ''data/model.bin'', arg_output_dir = None\<rparr>,
      path_resolve = (\<lambda>d. d),
      path_cwd = lit ''/home/user'',
      http = example_http pointer_response batch_response download_response,
      py_int = example_int,
      truediv_int = example_truediv,
      py_str = (\<lambda>v. []),
      open_error = (\<lambda>p. None),
      write_error = (\<lambda>p i. None)\<rparr>"

text \<open>An exception of the class \<open>requests\<close> raises for a refused or failed connection.\<close>

definition requests_ConnectionError :: "str \<Rightarrow> exc" where
  "requests_ConnectionError m =
     \<lparr>exc_mro = (''requests.exceptions'', ''ConnectionError'') #
                 (''requests.exceptions'', ''RequestException'') # builtin ''OSError'' # base_classes,
      exc_str = m, exc_status = None\<rparr>"

definition ConnectionRefusedError :: "str \<Rightarrow> exc" where
  "ConnectionRefusedError m =
     \<lparr>exc_mro = builtin ''ConnectionRefusedError'' # builtin ''ConnectionError'' #
                 builtin ''OSError'' # base_classes,
      exc_str = m, exc_status = None\<rparr>"

text \<open>The variants: one variable unset; the pointer endpoint answering 404.\<close>

definition world_no_token :: world where
  "world_no_token = example_world\<lparr>environ := example_environ(lit ''GIT_TOKEN'' := None)\<rparr>"

definition not_found_response :: response where
  "not_found_response =
     ok_response\<lparr>resp_status_code := 404, resp_reason := lit ''Not Found'',
                 resp_url := lit ''http://gitlab.example.com/raw''\<rparr>"

definition world_404 :: world where
  "world_404 =
     example_world\<lparr>http := example_http not_found_response batch_response download_response\<rparr>"

text \<open>The batch endpoint answering with no object; the storage answering without Content-Length.\<close>

definition empty_objects_response :: response where
  "empty_objects_response = ok_response\<lparr>resp_json := Inr (JObj [(lit ''objects'', JArr [])])\<rparr>"

definition world_empty_objects :: world where
  "world_empty_objects =
     example_world\<lparr>http := example_http pointer_response empty_objects_response download_response\<rparr>"

definition no_length_response :: response where
  "no_length_response = download_response\<lparr>resp_content_length := None\<rparr>"

definition world_no_length :: world where
  "world_no_length =
     example_world\<lparr>http := example_http pointer_response batch_response no_length_response\<rparr>"

text \<open>The globals and the destination of the example runs.\<close>

definition example_globals :: globals where
  "example_globals =
     \<lparr>GIT_HOST = lit ''gitlab.example.com'', GIT_TOKEN = lit ''tok'',
      BASIC_AUTH = lit ''Basic dXNlcjpwYXNz'', PROJECT = lit ''group/name'', REF = lit ''main'',
      FILE = lit ''data/model.bin'', OUTPUT = lit ''/home/user''\<rparr>"

definition example_out :: out_path where
  "example_out = \<lparr>out_dir = lit ''/home/user'', out_name = lit ''model.bin''\<rparr>"

definition example_meta_call :: http_call where
  "example_meta_call =
     meta_call (lit ''http://gitlab.example.com/api/v4/projects/group%2Fname/repository/files/data/model.bin/raw?ref=main'')
       (lit ''tok'')"

definition example_download_call :: http_call where
  "example_download_call = download_call (JStr (lit ''https://storage/x'')) (JObj [])"



section \<open>Properties of the pointer parser\<close>


subsection \<open>Helper lemmas on splitting\<close>

lemma split_sep_unfold:
  "split_sep c s = takeWhile (\<lambda>x. x \<noteq> c) s #
     (case dropWhile (\<lambda>x. x \<noteq> c) s of [] \<Rightarrow> [] | _ # r \<Rightarrow> split_sep c r)"
  by (induction s) (auto split: list.splits)

lemma split_sep_nonempty: "split_sep c s \<noteq> []"
  by (subst split_sep_unfold) simp

lemma item1_split_sep:
  assumes "c \<in> set s"
  shows "item1 (split_sep c s) = Inr (takeWhile (\<lambda>x. x \<noteq> c) (tl (dropWhile (\<lambda>x. x \<noteq> c) s)))"
proof -
  from assms have "dropWhile (\<lambda>x. x \<noteq> c) s \<noteq> []"
    by auto
  then obtain y r where d0: "dropWhile (\<lambda>x. x \<noteq> c) s = y # r"
    by (cases "dropWhile (\<lambda>x. x \<noteq> c) s") auto
  have s1: "split_sep c s = takeWhile (\<lambda>x. x \<noteq> c) s # split_sep c r"
    by (subst split_sep_unfold) (simp add: d0)
  have s2: "split_sep c r = takeWhile (\<lambda>x. x \<noteq> c) r #
      (case dropWhile (\<lambda>x. x \<noteq> c) r of [] \<Rightarrow> [] | _ # q \<Rightarrow> split_sep c q)"
    by (rule split_sep_unfold)
  show ?thesis
    unfolding s1 d0 by (subst s2) (simp add: item1_def)
qed

lemma item1_split_sep_none:
  assumes "c \<notin> set s"
  shows "item1 (split_sep c s) = Inl (IndexError (lit ''list index out of range''))"
proof -
  have "dropWhile (\<lambda>x. x \<noteq> c) s = []" using assms by auto
  then have "split_sep c s = [takeWhile (\<lambda>x. x \<noteq> c) s]"
    by (subst split_sep_unfold) (simp del: dropWhile_eq_Nil_conv)
  then show ?thesis by (simp add: item1_def)
qed

lemma split_ws_Nil: "dropWhile isspace s = [] \<Longrightarrow> split_ws s = []"
  by (subst split_ws.simps) (simp del: dropWhile_eq_Nil_conv)

lemma split_ws_Cons:
  "dropWhile isspace s = x # w \<Longrightarrow>
   split_ws s = takeWhile (\<lambda>c. \<not> isspace c) (x # w) # split_ws (dropWhile (\<lambda>c. \<not> isspace c) w)"
  by (subst split_ws.simps) simp

lemma dropWhile_Cons_head: "dropWhile P s = x # w \<Longrightarrow> \<not> P x"
  by (metis hd_dropWhile list.sel(1) list.distinct(1))


lemma item1_split_ws:
  "item1 (split_ws s) =
     (if has_second_token s then Inr (second_token s)
      else Inl (IndexError (lit ''list index out of range'')))"
proof (cases "dropWhile isspace s")
  case Nil
  have "split_ws s = []" using Nil by (rule split_ws_Nil)
  moreover have "\<not> has_second_token s"
    unfolding has_second_token_def Nil by simp
  ultimately show ?thesis
    by (simp add: item1_def)
next
  case (Cons x w)
  then have nx: "\<not> isspace x" by (rule dropWhile_Cons_head)
  define r where "r = dropWhile (\<lambda>c. \<not> isspace c) w"
  have r: "dropWhile (\<lambda>c. \<not> isspace c) (dropWhile isspace s) = r"
    unfolding Cons r_def using nx by simp
  have s1: "split_ws s = takeWhile (\<lambda>c. \<not> isspace c) (x # w) # split_ws r"
    unfolding r_def using Cons by (rule split_ws_Cons)
  show ?thesis
  proof (cases "dropWhile isspace r")
    case Nil
    have "split_ws r = []" using Nil by (rule split_ws_Nil)
    moreover have "\<not> has_second_token s"
      unfolding has_second_token_def r Nil by simp
    ultimately show ?thesis
      unfolding s1 by (simp add: item1_def)
  next
    case (Cons y v)
    have s2: "split_ws r =
        takeWhile (\<lambda>c. \<not> isspace c) (y # v) # split_ws (dropWhile (\<lambda>c. \<not> isspace c) v)"
      using Cons by (rule split_ws_Cons)
    have h: "has_second_token s"
      unfolding has_second_token_def r Cons by simp
    have t: "second_token s = takeWhile (\<lambda>c. \<not> isspace c) (y # v)"
      unfolding second_token_def r Cons by (rule refl)
    show ?thesis
      unfolding s1 s2 t using h by (simp add: item1_def)
  qed
qed

lemma in_set_dropWhile: "x \<in> set xs \<Longrightarrow> \<not> P x \<Longrightarrow> x \<in> set (dropWhile P xs)"
  by (induction xs) auto

lemma colon_in_strip: "58 \<in> set (strip l) \<longleftrightarrow> 58 \<in> set l"
proof
  assume "58 \<in> set (strip l)"
  then have "58 \<in> set (dropWhile isspace (rev (dropWhile isspace l)))"
    by (simp add: strip_def)
  then have "58 \<in> set (rev (dropWhile isspace l))"
    by (rule set_dropWhileD)
  then have "58 \<in> set (dropWhile isspace l)"
    by simp
  then show "58 \<in> set l"
    by (rule set_dropWhileD)
next
  have ns: "\<not> isspace 58" by (simp add: isspace_def)
  assume "58 \<in> set l"
  then have "58 \<in> set (dropWhile isspace l)"
    using ns by (rule in_set_dropWhile)
  then have "58 \<in> set (rev (dropWhile isspace l))"
    by simp
  then have "58 \<in> set (dropWhile isspace (rev (dropWhile isspace l)))"
    using ns by (rule in_set_dropWhile)
  then show "58 \<in> set (strip l)"
    by (simp add: strip_def)
qed

lemma oid_not_size: "startswith l (lit ''oid'') \<Longrightarrow> \<not> startswith l (lit ''size'')"
  by (cases l) (auto simp: startswith_def lit_def)

lemma get_lfs_meta_loop_last:
  assumes "\<forall>l \<in> set ls. startswith l (lit ''oid'') \<longrightarrow> 58 \<in> set l"
      and "\<forall>l \<in> set ls. startswith l (lit ''size'') \<longrightarrow> has_second_token (strip l)"
  shows "get_lfs_meta_loop ls oid sz =
     Inr (last_opt (map (\<lambda>l. between_colons (strip l)) (filter (\<lambda>l. startswith l (lit ''oid'')) ls)) oid,
          last_opt (map (\<lambda>l. second_token (strip l)) (filter (\<lambda>l. startswith l (lit ''size'')) ls)) sz)"
  using assms
proof (induction ls arbitrary: oid sz)
  case Nil
  then show ?case by (simp add: last_opt_def)
next
  case (Cons l ls)
  show ?case
  proof (cases "startswith l (lit ''oid'')")
    case True
    then have c: "58 \<in> set (strip l)" using Cons.prems(1) by (simp add: colon_in_strip)
    have ns: "\<not> startswith l (lit ''size'')" using True by (rule oid_not_size)
    show ?thesis
      using True ns Cons.prems Cons.IH[of "Some (between_colons (strip l))" sz]
      by (simp add: item1_split_sep[OF c] between_colons_def[symmetric] last_opt_def)
  next
    case False
    show ?thesis
    proof (cases "startswith l (lit ''size'')")
      case True
      then have h: "has_second_token (strip l)" using Cons.prems(2) by simp
      show ?thesis
        using True False h Cons.prems Cons.IH[of oid "Some (second_token (strip l))"]
        by (simp add: item1_split_ws last_opt_def)
    next
      case F2: False
      show ?thesis
        using False F2 Cons.prems Cons.IH[of oid sz] by simp
    qed
  qed
qed


text \<open>
  C1 (as amended). For every pointer body that has a line starting with "oid" and a line
  starting with "size", in which every line starting with "oid" contains a colon and every
  line starting with "size" has at least two whitespace-separated tokens, the parser
  returns: as object id, the text between the first colon and the next colon (or the end)
  of the stripped LAST line starting with "oid"; as size, the second
  whitespace-separated token of the stripped LAST line starting with "size".
\<close>

theorem get_lfs_meta_parse_last_lines:
  assumes "oid_lines text \<noteq> []" and "size_lines text \<noteq> []"
      and "\<forall>l \<in> set (oid_lines text). 58 \<in> set l"
      and "\<forall>l \<in> set (size_lines text). has_second_token (strip l)"
  shows "get_lfs_meta_parse text =
     Inr (between_colons (strip (last (oid_lines text))),
          second_token (strip (last (size_lines text))))"
proof -
  have "get_lfs_meta_loop (readlines text) None None =
     Inr (Some (between_colons (strip (last (oid_lines text)))),
          Some (second_token (strip (last (size_lines text)))))"
    using assms
    by (subst get_lfs_meta_loop_last) (auto simp: oid_lines_def size_lines_def last_opt_def last_map)
  then show ?thesis by (simp add: get_lfs_meta_parse_def)
qed


theorem get_lfs_meta_parse_last_lines_witness:
  "get_lfs_meta_parse
     (lit ''version https://git-lfs.github.com/spec/v1'' @ [10] @
      lit ''oid sha256:4d7a'' @ [10] @ lit ''size 12345'' @ [10]) =
   Inr (lit ''4d7a'', lit ''12345'')"
proof -
  let ?X = "lit ''version https://git-lfs.github.com/spec/v1'' @ [10] @
      lit ''oid sha256:4d7a'' @ [10] @ lit ''size 12345'' @ [10]"
  have ol: "oid_lines ?X = [lit ''oid sha256:4d7a'' @ [10]]"
    by (simp add: oid_lines_def lit_def startswith_def)
  have sl: "size_lines ?X = [lit ''size 12345'' @ [10]]"
    by (simp add: size_lines_def lit_def startswith_def)
  have h1: "oid_lines ?X \<noteq> []" and h2: "size_lines ?X \<noteq> []"
    unfolding ol sl by simp_all
  have h3: "\<forall>l \<in> set (oid_lines ?X). 58 \<in> set l"
    unfolding ol by (simp add: lit_def)
  have h4: "\<forall>l \<in> set (size_lines ?X). has_second_token (strip l)"
    unfolding sl by (simp add: lit_def has_second_token_def strip_def isspace_def)
  show ?thesis
    using get_lfs_meta_parse_last_lines [OF h1 h2 h3 h4] unfolding ol sl
    by (simp add: lit_def between_colons_def second_token_def strip_def isspace_def)
qed

text \<open>
  C1 as stated fails in four ways: a later "oid" or "size" line replaces the earlier one;
  the object id stops at the second colon; an "oid" line without a colon raises
  \<open>IndexError\<close>; white space after the colon is kept.
\<close>

theorem get_lfs_meta_parse_counterexample:
  "get_lfs_meta_parse (lit ''oid sha256:aaa'' @ [10] @ lit ''oid sha256:bbb'' @ [10] @
       lit ''size 1'' @ [10] @ lit ''size 2'' @ [10]) = Inr (lit ''bbb'', lit ''2'') \<and>
   claimed_oid (lit ''oid sha256:aaa'' @ [10] @ lit ''oid sha256:bbb'' @ [10] @
       lit ''size 1'' @ [10] @ lit ''size 2'' @ [10]) = lit ''aaa'' \<and>
   claimed_size (lit ''oid sha256:aaa'' @ [10] @ lit ''oid sha256:bbb'' @ [10] @
       lit ''size 1'' @ [10] @ lit ''size 2'' @ [10]) = lit ''1'' \<and>
   get_lfs_meta_parse (lit ''oid:sha256:deadbeef'' @ [10] @ lit ''size 42'' @ [10]) =
     Inr (lit ''sha256'', lit ''42'') \<and>
   claimed_oid (lit ''oid:sha256:deadbeef'' @ [10] @ lit ''size 42'' @ [10]) =
     lit ''sha256:deadbeef'' \<and>
   get_lfs_meta_parse (lit ''oid'' @ [10] @ lit ''size 42'' @ [10]) =
     Inl (IndexError (lit ''list index out of range'')) \<and>
   get_lfs_meta_parse (lit ''oid sha256: abc'' @ [10] @ lit ''size 42'' @ [10]) =
     Inr (lit '' abc'', lit ''42'') \<and>
   claimed_oid (lit ''oid sha256: abc'' @ [10] @ lit ''size 42'' @ [10]) = lit ''abc''"
  by (simp add: get_lfs_meta_parse_def claimed_oid_def claimed_size_def oid_lines_def
      size_lines_def second_token_def lit_def startswith_def strip_def isspace_def item1_def
      split_ws.simps)

text \<open>
  C2. A pointer body with no line starting with "oid", or with none starting with "size",
  should give a descriptive malformed-pointer error. The parser gives
  \<open>UnboundLocalError\<close> instead: for the body \<open>size 42\<close> the name \<open>oid\<close> is read
  unbound at the \<open>return\<close>, and for the body \<open>oid sha256:abc\<close> the name \<open>size\<close> is.
\<close>

theorem get_lfs_meta_missing_marker_unbound:
  "get_lfs_meta_parse (lit ''size 42'' @ [10]) = Inl (UnboundLocalError ''oid'') \<and>
   get_lfs_meta_parse (lit ''oid sha256:abc'' @ [10]) = Inl (UnboundLocalError ''size'') \<and>
   type_name (UnboundLocalError ''oid'') = lit ''UnboundLocalError''"
  by (simp add: get_lfs_meta_parse_def lit_def startswith_def strip_def isspace_def item1_def
      split_ws.simps type_name_def UnboundLocalError_def builtin_def)


section \<open>Properties of the request pipeline\<close>

lemmas exc_defs = KeyError_def IndexError_def RuntimeError_def HTTPError_def TypeError_def
  AttributeError_def UnicodeEncodeError_def UnboundLocalError_def

lemmas cls_defs = cls_KeyError_def cls_Exception_def cls_HTTPError_def cls_ConnectionError_def
  cls_NewConnectionError_def builtin_def base_classes_def isinstance_def

lemmas io_defs = seq_def emit_def pure_def

lemmas example_defs = example_world_def example_environ_def example_http_def example_int_def
  ok_response_def pointer_response_def batch_response_def download_response_def

lemma isinstance_KeyError: "isinstance (KeyError r) cls_KeyError"
  by (simp add: exc_defs cls_defs)

lemma exc_str_KeyError: "exc_str (KeyError r) = r"
  by (simp add: KeyError_def)

lemma isinstance_RuntimeError: "isinstance (RuntimeError m) cls_Exception"
  by (simp add: exc_defs cls_defs)

lemma HTTPError_handlers:
  "request_handlers (HTTPError m status) =
     (if 400 \<le> status \<and> status < 500 then Inl (RuntimeError (lit ''Client Error: '' @ m))
      else if 500 \<le> status \<and> status < 600 then Inl (RuntimeError (lit ''Server Error: '' @ m))
      else Inr None)"
  by (simp add: request_handlers_def HTTPError_def cls_defs)

lemma example_config:
  "load_config example_world =
     ([], Inr (lit ''gitlab.example.com'', lit ''tok'', lit ''Basic dXNlcjpwYXNz''))"
  by (simp add: load_config_def load_config_body_def environ_get_def example_defs lit_def
      utf8_encode_def is_surrogate_def utf8_char_def b64_char_def)

text \<open>
  C10. When one of GIT_HOST, GIT_TOKEN, GIT_USER, GIT_PWD is absent from the environment,
  the run consists of one ERROR log line that names the first absent variable (in the
  order the program reads them), the process exits with status 1, and no request is made.
\<close>

theorem run_missing_env:
  assumes "missing_env w \<noteq> []"
  shows "run w =
     ([Log ''ERROR'' (lit ''Please setup required env variable: '' @
                       quoted (lit (hd (missing_env w))))], Exit 1) \<and>
     requests_of (fst (run w)) = []"
proof -
  have "load_config w =
     ([Log ''ERROR'' (lit ''Please setup required env variable: '' @
                       quoted (lit (hd (missing_env w))))], Inl (Exit 1))"
    using assms
    by (auto simp: load_config_def load_config_body_def environ_get_def missing_env_def
        required_env_def isinstance_KeyError exc_str_KeyError split: option.splits)
  then show ?thesis by (simp add: run_def)
qed

theorem run_missing_env_witness:
  "run world_no_token =
     ([Log ''ERROR'' (lit ''Please setup required env variable: '' @ quoted (lit ''GIT_TOKEN''))],
      Exit 1) \<and>
   requests_of (fst (run world_no_token)) = []"
proof -
  have m: "missing_env world_no_token = [''GIT_TOKEN'']"
    by (simp add: missing_env_def required_env_def world_no_token_def example_defs lit_def)
  then have "missing_env world_no_token \<noteq> []" by simp
  from run_missing_env [OF this] show ?thesis by (simp add: m)
qed

lemma handlers_connection:
  "isinstance ex cls_NewConnectionError \<or> isinstance ex cls_ConnectionError \<Longrightarrow>
   request_handlers ex = Inl (RuntimeError (lit ''Connection failed: '' @ type_name ex))"
  by (simp add: request_handlers_def)

lemma handlers_other:
  "\<not> isinstance ex cls_NewConnectionError \<Longrightarrow> \<not> isinstance ex cls_ConnectionError \<Longrightarrow>
   \<not> isinstance ex cls_HTTPError \<Longrightarrow> isinstance ex cls_Exception \<Longrightarrow>
   request_handlers ex = Inl (RuntimeError (exc_str ex))"
  by (simp add: request_handlers_def)

lemma raise_for_status_4xx:
  "400 \<le> resp_status_code r \<Longrightarrow> resp_status_code r < 500 \<Longrightarrow>
   raise_for_status r =
     Some (HTTPError (str_int (resp_status_code r) @ lit '' Client Error: '' @ resp_reason r @
                      lit '' for url: '' @ resp_url r) (resp_status_code r))"
  by (simp add: raise_for_status_def)

lemma raise_for_status_5xx:
  "500 \<le> resp_status_code r \<Longrightarrow> resp_status_code r < 600 \<Longrightarrow>
   raise_for_status r =
     Some (HTTPError (str_int (resp_status_code r) @ lit '' Server Error: '' @ resp_reason r @
                      lit '' for url: '' @ resp_url r) (resp_status_code r))"
  by (simp add: raise_for_status_def)

lemma request_supported:
  assumes "method \<in> set [''GET'', ''POST'', ''PATCH'', ''DELETE'']"
  shows "request w path method header req_data timeout =
     ([Request (request_params path method header req_data timeout)],
      (case http w (request_params path method header req_data timeout) of
         Inl ex \<Rightarrow> request_handlers ex
       | Inr resp \<Rightarrow>
           (case raise_for_status resp of
              Some ex \<Rightarrow> request_handlers ex
            | None \<Rightarrow> Inr (Some resp))))"
proof -
  have m: "\<not> method \<notin> set [''GET'', ''POST'', ''PATCH'', ''DELETE'']"
    using assms by simp
  show ?thesis
    unfolding request_def by (simp only: m if_False)
qed

text \<open>
  The handlers of \<open>request\<close>, branch by branch, for one of the four supported methods. An
  exception of \<open>requests.request\<close> that is an instance of one of the two classes the first
  handler names (urllib3's \<open>NewConnectionError\<close> and the built-in \<open>ConnectionError\<close>)
  becomes a \<open>RuntimeError\<close> "Connection failed: " with the name of its type; a response
  with a 4xx status becomes "Client Error: " and a 5xx status "Server Error: ", each followed
  by the text of the library's HTTP error, which holds the status, the reason and the URL;
  any other instance of \<open>Exception\<close> is wrapped in a \<open>RuntimeError\<close> with the same text.
\<close>

lemma request_handler_branches:
  assumes m: "method \<in> set [''GET'', ''POST'', ''PATCH'', ''DELETE'']"
  shows
    "(http w (request_params path method header req_data timeout) = Inl ex \<and>
      (isinstance ex cls_NewConnectionError \<or> isinstance ex cls_ConnectionError) \<longrightarrow>
      snd (request w path method header req_data timeout) =
        Inl (RuntimeError (lit ''Connection failed: '' @ type_name ex))) \<and>
     (http w (request_params path method header req_data timeout) = Inr resp \<and>
      400 \<le> resp_status_code resp \<and> resp_status_code resp < 500 \<longrightarrow>
      snd (request w path method header req_data timeout) =
        Inl (RuntimeError (lit ''Client Error: '' @ str_int (resp_status_code resp) @
               lit '' Client Error: '' @ resp_reason resp @ lit '' for url: '' @ resp_url resp))) \<and>
     (http w (request_params path method header req_data timeout) = Inr resp \<and>
      500 \<le> resp_status_code resp \<and> resp_status_code resp < 600 \<longrightarrow>
      snd (request w path method header req_data timeout) =
        Inl (RuntimeError (lit ''Server Error: '' @ str_int (resp_status_code resp) @
               lit '' Server Error: '' @ resp_reason resp @ lit '' for url: '' @ resp_url resp))) \<and>
     (http w (request_params path method header req_data timeout) = Inl ex \<and>
      \<not> isinstance ex cls_NewConnectionError \<and> \<not> isinstance ex cls_ConnectionError \<and>
      \<not> isinstance ex cls_HTTPError \<and> isinstance ex cls_Exception \<longrightarrow>
      snd (request w path method header req_data timeout) = Inl (RuntimeError (exc_str ex)))"
proof (intro conjI impI)
  assume "http w (request_params path method header req_data timeout) = Inl ex \<and>
      (isinstance ex cls_NewConnectionError \<or> isinstance ex cls_ConnectionError)"
  then show "snd (request w path method header req_data timeout) =
        Inl (RuntimeError (lit ''Connection failed: '' @ type_name ex))"
    by (simp add: request_supported [OF m] handlers_connection)
next
  assume "http w (request_params path method header req_data timeout) = Inr resp \<and>
      400 \<le> resp_status_code resp \<and> resp_status_code resp < 500"
  then show "snd (request w path method header req_data timeout) =
        Inl (RuntimeError (lit ''Client Error: '' @ str_int (resp_status_code resp) @
               lit '' Client Error: '' @ resp_reason resp @ lit '' for url: '' @ resp_url resp))"
    by (simp add: request_supported [OF m] raise_for_status_4xx HTTPError_handlers)
next
  assume "http w (request_params path method header req_data timeout) = Inr resp \<and>
      500 \<le> resp_status_code resp \<and> resp_status_code resp < 600"
  then show "snd (request w path method header req_data timeout) =
        Inl (RuntimeError (lit ''Server Error: '' @ str_int (resp_status_code resp) @
               lit '' Server Error: '' @ resp_reason resp @ lit '' for url: '' @ resp_url resp))"
    by (simp add: request_supported [OF m] raise_for_status_5xx HTTPError_handlers)
next
  assume "http w (request_params path method header req_data timeout) = Inl ex \<and>
      \<not> isinstance ex cls_NewConnectionError \<and> \<not> isinstance ex cls_ConnectionError \<and>
      \<not> isinstance ex cls_HTTPError \<and> isinstance ex cls_Exception"
  then show "snd (request w path method header req_data timeout) = Inl (RuntimeError (exc_str ex))"
    by (simp add: request_supported [OF m] handlers_other)
qed

lemma str_int_404: "str_int 404 = lit ''404''"
  by (simp add: str_int_def dec.simps lit_def)

lemma str_int_503: "str_int 503 = lit ''503''"
  by (simp add: str_int_def dec.simps lit_def)

lemma handlers_requests_ConnectionError:
  "request_handlers (requests_ConnectionError m) = Inl (RuntimeError m)"
  by (simp add: request_handlers_def requests_ConnectionError_def cls_defs)

lemma handlers_ConnectionRefusedError:
  "request_handlers (ConnectionRefusedError m) =
     Inl (RuntimeError (lit ''Connection failed: ConnectionRefusedError''))"
  by (simp add: request_handlers_def ConnectionRefusedError_def cls_defs type_name_def lit_def)

lemma request_requests_ConnectionError:
  assumes "method \<in> set [''GET'', ''POST'', ''PATCH'', ''DELETE'']"
      and "http w (request_params path method header req_data timeout) =
             Inl (requests_ConnectionError m)"
  shows "request w path method header req_data timeout =
     ([Request (request_params path method header req_data timeout)], Inl (RuntimeError m))"
  using assms(2) by (simp add: request_supported [OF assms(1)] handlers_requests_ConnectionError)

text \<open>
  C9. The first clause does not hold of the code. Line 12 imports only \<open>HTTPError\<close> from
  \<open>requests.exceptions\<close>, so the handler of line 104 names urllib3's \<open>NewConnectionError\<close>
  and the built-in \<open>ConnectionError\<close>. For a connection that cannot be made (name not
  resolved, connection refused, network unreachable) \<open>requests.request\<close> raises
  \<open>requests.exceptions.ConnectionError\<close>, which is an instance of neither class: it reaches
  the last handler and is wrapped in a \<open>RuntimeError\<close> that carries only its message, with
  neither "Connection failed" nor the name of its type.
\<close>

theorem request_connection_failure_generic:
  "\<not> isinstance (requests_ConnectionError (lit ''Max retries exceeded with url: /x''))
       cls_NewConnectionError \<and>
   \<not> isinstance (requests_ConnectionError (lit ''Max retries exceeded with url: /x''))
       cls_ConnectionError \<and>
   request (example_world\<lparr>http :=
              (\<lambda>c. Inl (requests_ConnectionError (lit ''Max retries exceeded with url: /x'')))\<rparr>)
     (lit ''http://h/x'') ''GET'' None None 30 =
     ([Request (request_params (lit ''http://h/x'') ''GET'' None None 30)],
      Inl (RuntimeError (lit ''Max retries exceeded with url: /x''))) \<and>
   RuntimeError (lit ''Max retries exceeded with url: /x'') \<noteq>
     RuntimeError (lit ''Connection failed: ConnectionError'')"
proof -
  let ?m = "lit ''Max retries exceeded with url: /x''"
  have a: "\<not> isinstance (requests_ConnectionError ?m) cls_NewConnectionError"
    by (simp add: requests_ConnectionError_def cls_defs)
  have b: "\<not> isinstance (requests_ConnectionError ?m) cls_ConnectionError"
    by (simp add: requests_ConnectionError_def cls_defs)
  have c: "request (example_world\<lparr>http := (\<lambda>c. Inl (requests_ConnectionError ?m))\<rparr>)
      (lit ''http://h/x'') ''GET'' None None 30 =
      ([Request (request_params (lit ''http://h/x'') ''GET'' None None 30)],
       Inl (RuntimeError ?m))"
    by (rule request_requests_ConnectionError) simp_all
  have d: "RuntimeError ?m \<noteq> RuntimeError (lit ''Connection failed: ConnectionError'')"
    by (simp add: RuntimeError_def lit_def)
  from a b c d show ?thesis by (intro conjI)
qed


subsection \<open>The stages of a run, when the request is answered\<close>

lemma get_supported: "''GET'' \<in> set [''GET'', ''POST'', ''PATCH'', ''DELETE'']"
  by simp

lemma post_supported: "''POST'' \<in> set [''GET'', ''POST'', ''PATCH'', ''DELETE'']"
  by simp

lemma get_lfs_meta_answered:
  assumes "quote_plus (PROJECT g) = Inr q"
      and "url = lit ''http://'' @ GIT_HOST g @ lit ''/api/v4/projects/'' @ q @
                 lit ''/repository/files/'' @ FILE g @ lit ''/raw?ref='' @ REF g"
      and "http w (meta_call url (GIT_TOKEN g)) = Inr resp"
  shows "get_lfs_meta w g =
     ([Log ''INFO'' (lit ''Get LFS meta-data''), Request (meta_call url (GIT_TOKEN g))],
      (case raise_for_status resp of
         Some ex \<Rightarrow> (case request_handlers ex of Inl e \<Rightarrow> Inl e
                     | Inr None \<Rightarrow> Inl (AttributeError (quoted (lit ''NoneType'') @
                                     lit '' object has no attribute '' @ quoted (lit ''text'')))
                     | Inr (Some r) \<Rightarrow> get_lfs_meta_parse (resp_text r))
       | None \<Rightarrow> get_lfs_meta_parse (resp_text resp)))"
  using assms
  by (simp add: get_lfs_meta_def get_lfs_meta_url_def io_defs request_supported [OF get_supported]
      meta_call_def split: option.splits sum.splits)

lemma get_lfs_downloand_info_answered:
  assumes "py_int w sz = Inr n"
      and "http w (batch_call g oid n) = Inr resp"
      and "raise_for_status resp = None"
  shows "get_lfs_downloand_info w g oid sz =
     ([Log ''INFO'' (lit ''Get download info''), Request (batch_call g oid n)],
      (case resp_json resp of Inl e \<Rightarrow> Inl e | Inr data \<Rightarrow> batch_download_action data))"
  using assms
  by (simp add: get_lfs_downloand_info_def io_defs request_supported [OF post_supported]
      batch_call_def split: option.splits sum.splits)


lemma main_body_args:
  assumes "parse_args w = Inr args"
  shows "main_body w (host, token, basic) =
     seq (get_lfs_meta w
            \<lparr>GIT_HOST = host, GIT_TOKEN = token, BASIC_AUTH = basic, PROJECT = arg_project args,
             REF = arg_ref args, FILE = arg_file args,
             OUTPUT = (case arg_output_dir args of
                         None \<Rightarrow> path_cwd w
                       | Some d \<Rightarrow> if d \<noteq> [] then path_resolve w d else path_cwd w)\<rparr>)
       (\<lambda>(oid, sz).
          seq (get_lfs_downloand_info w
                 \<lparr>GIT_HOST = host, GIT_TOKEN = token, BASIC_AUTH = basic,
                  PROJECT = arg_project args, REF = arg_ref args, FILE = arg_file args,
                  OUTPUT = (case arg_output_dir args of
                              None \<Rightarrow> path_cwd w
                            | Some d \<Rightarrow> if d \<noteq> [] then path_resolve w d else path_cwd w)\<rparr>
                 oid sz)
            (\<lambda>(href, header).
               dl_target_file w href header
                 \<lparr>out_dir = (case arg_output_dir args of
                               None \<Rightarrow> path_cwd w
                             | Some d \<Rightarrow> if d \<noteq> [] then path_resolve w d else path_cwd w),
                  out_name = last (split_sep 47 (arg_file args))\<rparr>))"
  using assms by (simp add: main_body_def cli_def seq_def Let_def)

lemma run_configured:
  assumes "load_config w = ([], Inr c)"
  shows "run w = main_try w c"
  using assms by (simp add: run_def split: prod.splits)

lemma main_try_raised:
  assumes "main_body w c = (es, Inl ex)" and "isinstance ex cls_Exception"
  shows "main_try w c = (es @ [Log ''ERROR'' (lit ''Unexpected Error: '' @ exc_str ex)], Exit 0)"
  using assms by (simp add: main_try_def)


text \<open>
  C6. When configuration and command line are read and the raw-file endpoint answers the
  pointer request with status 404, the run is: the INFO line, the pointer request, and one
  ERROR line "Unexpected Error: Client Error: 404 Client Error: ..."; the pointer request
  is the only request of the run, so neither the batch POST nor the streaming GET is
  issued.
\<close>

theorem run_pointer_404:
  assumes cfg: "load_config w = ([], Inr (host, token, basic))"
      and args: "parse_args w = Inr args"
      and q: "quote_plus (arg_project args) = Inr q"
      and url: "url = lit ''http://'' @ host @ lit ''/api/v4/projects/'' @ q @
                      lit ''/repository/files/'' @ arg_file args @ lit ''/raw?ref='' @ arg_ref args"
      and resp: "http w (meta_call url token) = Inr resp"
      and st: "resp_status_code resp = 404"
  shows "run w =
     ([Log ''INFO'' (lit ''Get LFS meta-data''), Request (meta_call url token),
       Log ''ERROR'' (lit ''Unexpected Error: Client Error: 404 Client Error: '' @
                      resp_reason resp @ lit '' for url: '' @ resp_url resp)], Exit 0) \<and>
     requests_of (fst (run w)) = [meta_call url token]"
proof -
  let ?g = "\<lparr>GIT_HOST = host, GIT_TOKEN = token, BASIC_AUTH = basic, PROJECT = arg_project args,
             REF = arg_ref args, FILE = arg_file args,
             OUTPUT = (case arg_output_dir args of
                         None \<Rightarrow> path_cwd w
                       | Some d \<Rightarrow> if d \<noteq> [] then path_resolve w d else path_cwd w)\<rparr>"
  let ?e = "RuntimeError (lit ''Client Error: 404 Client Error: '' @
                      resp_reason resp @ lit '' for url: '' @ resp_url resp)"
  have r: "raise_for_status resp =
     Some (HTTPError (lit ''404 Client Error: '' @ resp_reason resp @
                      lit '' for url: '' @ resp_url resp) 404)"
    using raise_for_status_4xx [of resp] st by (simp add: str_int_404 lit_def)
  have h: "request_handlers (HTTPError (lit ''404 Client Error: '' @ resp_reason resp @
                      lit '' for url: '' @ resp_url resp) 404) = Inl ?e"
    by (simp add: HTTPError_handlers lit_def)
  have "get_lfs_meta w ?g =
     ([Log ''INFO'' (lit ''Get LFS meta-data''), Request (meta_call url token)], Inl ?e)"
    using get_lfs_meta_answered [of ?g q url w resp] q url resp
    by (simp add: r h)
  then have "main_body w (host, token, basic) =
     ([Log ''INFO'' (lit ''Get LFS meta-data''), Request (meta_call url token)], Inl ?e)"
    by (simp add: main_body_args [OF args] seq_def)
  then have "main_try w (host, token, basic) =
     ([Log ''INFO'' (lit ''Get LFS meta-data''), Request (meta_call url token),
       Log ''ERROR'' (lit ''Unexpected Error: '' @ exc_str ?e)], Exit 0)"
    using main_try_raised [OF _ isinstance_RuntimeError] by fastforce
  then have "run w =
     ([Log ''INFO'' (lit ''Get LFS meta-data''), Request (meta_call url token),
       Log ''ERROR'' (lit ''Unexpected Error: Client Error: 404 Client Error: '' @
                      resp_reason resp @ lit '' for url: '' @ resp_url resp)], Exit 0)"
    by (simp add: run_configured [OF cfg] RuntimeError_def lit_def)
  then show ?thesis by simp
qed

lemma environ_get_http: "environ_get (w\<lparr>http := h\<rparr>) k = environ_get w k"
  by (simp add: environ_get_def)

lemma load_config_http: "load_config (w\<lparr>http := h\<rparr>) = load_config w"
  by (simp only: load_config_def load_config_body_def environ_get_http)

lemma quote_plus_example: "quote_plus (lit ''group/name'') = Inr (lit ''group%2Fname'')"
  by (simp add: quote_plus_def quote_def utf8_encode_def lit_def is_surrogate_def utf8_char_def
      quote_byte_def always_safe_def hex_upper_def)

theorem run_pointer_404_witness:
  "run world_404 =
     ([Log ''INFO'' (lit ''Get LFS meta-data''),
       Request (meta_call (lit ''http://gitlab.example.com/api/v4/projects/group%2Fname/repository/files/data/model.bin/raw?ref=main'')
                  (lit ''tok'')),
       Log ''ERROR'' (lit ''Unexpected Error: Client Error: 404 Client Error: Not Found for url: http://gitlab.example.com/raw'')],
      Exit 0) \<and>
   requests_of (fst (run world_404)) =
     [meta_call (lit ''http://gitlab.example.com/api/v4/projects/group%2Fname/repository/files/data/model.bin/raw?ref=main'')
        (lit ''tok'')]"
proof -
  let ?args = "\<lparr>arg_project = lit ''group/name'', arg_ref = lit ''main'',
                 arg_file = lit ''data/model.bin'', arg_output_dir = None\<rparr>"
  let ?url = "lit ''http://gitlab.example.com/api/v4/projects/group%2Fname/repository/files/data/model.bin/raw?ref=main''"
  have cfg: "load_config world_404 =
      ([], Inr (lit ''gitlab.example.com'', lit ''tok'', lit ''Basic dXNlcjpwYXNz''))"
    unfolding world_404_def load_config_http by (rule example_config)
  have args: "parse_args world_404 = Inr ?args"
    by (simp add: world_404_def example_world_def)
  have q: "quote_plus (arg_project ?args) = Inr (lit ''group%2Fname'')"
    using quote_plus_example by simp
  have url: "?url = lit ''http://'' @ lit ''gitlab.example.com'' @ lit ''/api/v4/projects/'' @
      lit ''group%2Fname'' @ lit ''/repository/files/'' @ arg_file ?args @ lit ''/raw?ref='' @
      arg_ref ?args"
    by (simp add: lit_def)
  have resp: "http world_404 (meta_call ?url (lit ''tok'')) = Inr not_found_response"
    by (simp add: world_404_def example_http_def meta_call_def request_params_def)
  have st: "resp_status_code not_found_response = 404"
    by (simp add: not_found_response_def)
  show ?thesis
    using run_pointer_404 [OF cfg args q url resp st]
    by (simp add: not_found_response_def ok_response_def lit_def)
qed


subsection \<open>The example runs, stage by stage\<close>

lemma example_args:
  "parse_args (example_world\<lparr>http := h\<rparr>) =
     Inr \<lparr>arg_project = lit ''group/name'', arg_ref = lit ''main'',
          arg_file = lit ''data/model.bin'', arg_output_dir = None\<rparr>"
  by (simp add: example_world_def)

lemma example_basename: "last (split_sep 47 (lit ''data/model.bin'')) = lit ''model.bin''"
  by (simp add: lit_def)

lemma example_main_body:
  "main_body (example_world\<lparr>http := h\<rparr>)
     (lit ''gitlab.example.com'', lit ''tok'', lit ''Basic dXNlcjpwYXNz'') =
   seq (get_lfs_meta (example_world\<lparr>http := h\<rparr>) example_globals)
     (\<lambda>(oid, sz).
        seq (get_lfs_downloand_info (example_world\<lparr>http := h\<rparr>) example_globals oid sz)
          (\<lambda>(href, header). dl_target_file (example_world\<lparr>http := h\<rparr>) href header example_out))"
  unfolding main_body_args [OF example_args]
  by (simp add: example_globals_def example_out_def example_basename example_world_def)

lemma example_run:
  "run (example_world\<lparr>http := h\<rparr>) =
     main_try (example_world\<lparr>http := h\<rparr>)
       (lit ''gitlab.example.com'', lit ''tok'', lit ''Basic dXNlcjpwYXNz'')"
  by (rule run_configured) (simp only: load_config_http example_config)

lemma example_meta:
  "get_lfs_meta (example_world\<lparr>http := example_http p b d\<rparr>) example_globals =
     ([Log ''INFO'' (lit ''Get LFS meta-data''), Request example_meta_call],
      (case raise_for_status p of
         Some ex \<Rightarrow> (case request_handlers ex of Inl e \<Rightarrow> Inl e
                     | Inr None \<Rightarrow> Inl (AttributeError (quoted (lit ''NoneType'') @
                                     lit '' object has no attribute '' @ quoted (lit ''text'')))
                     | Inr (Some r) \<Rightarrow> get_lfs_meta_parse (resp_text r))
       | None \<Rightarrow> get_lfs_meta_parse (resp_text p)))"
proof -
  have q: "quote_plus (PROJECT example_globals) = Inr (lit ''group%2Fname'')"
    using quote_plus_example by (simp add: example_globals_def)
  have u: "lit ''http://gitlab.example.com/api/v4/projects/group%2Fname/repository/files/data/model.bin/raw?ref=main'' =
      lit ''http://'' @ GIT_HOST example_globals @ lit ''/api/v4/projects/'' @ lit ''group%2Fname'' @
      lit ''/repository/files/'' @ FILE example_globals @ lit ''/raw?ref='' @ REF example_globals"
    by (simp add: example_globals_def lit_def)
  have t: "GIT_TOKEN example_globals = lit ''tok''"
    by (simp add: example_globals_def)
  have h: "http (example_world\<lparr>http := example_http p b d\<rparr>)
      (meta_call (lit ''http://gitlab.example.com/api/v4/projects/group%2Fname/repository/files/data/model.bin/raw?ref=main'')
         (GIT_TOKEN example_globals)) = Inr p"
    by (simp add: example_http_def meta_call_def request_params_def)
  show ?thesis
    unfolding example_meta_call_def t [symmetric]
    by (rule get_lfs_meta_answered [OF q u h])
qed

lemma raise_for_status_ok: "resp_status_code r = 200 \<Longrightarrow> raise_for_status r = None"
  by (simp add: raise_for_status_def)

lemma example_pointer_parse:
  "get_lfs_meta_parse (resp_text pointer_response) = Inr (lit ''deadbeef'', lit ''5'')"
  by (simp add: pointer_response_def ok_response_def get_lfs_meta_parse_def lit_def startswith_def
      strip_def isspace_def item1_def split_ws.simps)

lemma example_meta_ok:
  "get_lfs_meta (example_world\<lparr>http := example_http pointer_response b d\<rparr>) example_globals =
     ([Log ''INFO'' (lit ''Get LFS meta-data''), Request example_meta_call],
      Inr (lit ''deadbeef'', lit ''5''))"
proof -
  have "raise_for_status pointer_response = None"
    by (rule raise_for_status_ok) (simp add: pointer_response_def ok_response_def)
  then show ?thesis
    by (simp add: example_meta example_pointer_parse)
qed

lemma example_py_int: "py_int (example_world\<lparr>http := h\<rparr>) (lit ''5'') = Inr 5"
  by (simp add: example_world_def example_int_def lit_def)

lemma example_batch:
  assumes "resp_status_code b = 200"
  shows "get_lfs_downloand_info (example_world\<lparr>http := example_http p b d\<rparr>) example_globals
       (lit ''deadbeef'') (lit ''5'') =
     ([Log ''INFO'' (lit ''Get download info''),
       Request (batch_call example_globals (lit ''deadbeef'') 5)],
      (case resp_json b of Inl e \<Rightarrow> Inl e | Inr data \<Rightarrow> batch_download_action data))"
proof -
  have h: "http (example_world\<lparr>http := example_http p b d\<rparr>)
      (batch_call example_globals (lit ''deadbeef'') 5) = Inr b"
    by (simp add: example_http_def batch_call_def request_params_def lit_def)
  show ?thesis
    by (rule get_lfs_downloand_info_answered [OF example_py_int h raise_for_status_ok [OF assms]])
qed


subsection \<open>The download\<close>

lemma dl_target_file_no_length:
  assumes "http w (download_call url header) = Inr r"
      and "raise_for_status r = None"
      and "resp_content_length r = None"
  shows "dl_target_file w url header out =
     ([Log ''INFO'' (lit ''Download file: '' @ str_json w url), Request (download_call url header)],
      Inl (KeyError (quoted (lit ''content-length''))))"
  using assms by (simp add: dl_target_file_def io_defs)



lemma example_download_http:
  "http (example_world\<lparr>http := example_http p b d\<rparr>) example_download_call = Inr d"
  by (simp add: example_http_def example_download_call_def download_call_def)

lemma example_str_json: "str_json w (JStr s) = s"
  by (simp add: str_json_def)

lemma example_dl_log:
  "lit ''Download file: '' @ lit ''https://storage/x'' = lit ''Download file: https://storage/x''"
  by (simp add: lit_def)


lemma example_dl_no_length:
  "dl_target_file (example_world\<lparr>http := example_http p b no_length_response\<rparr>)
     (JStr (lit ''https://storage/x'')) (JObj []) example_out =
   ([Log ''INFO'' (lit ''Download file: https://storage/x''), Request example_download_call],
    Inl (KeyError (quoted (lit ''content-length''))))"
proof -
  let ?w = "example_world\<lparr>http := example_http p b no_length_response\<rparr>"
  have h: "http ?w (download_call (JStr (lit ''https://storage/x'')) (JObj [])) = Inr no_length_response"
    using example_download_http [of p b no_length_response] by (simp add: example_download_call_def)
  have r: "raise_for_status no_length_response = None"
    by (rule raise_for_status_ok)
      (simp add: no_length_response_def download_response_def ok_response_def)
  have c: "resp_content_length no_length_response = None"
    by (simp add: no_length_response_def)
  show ?thesis
    using dl_target_file_no_length [OF h r c]
    by (simp add: example_str_json example_dl_log example_download_call_def)
qed




subsection \<open>The batch answer without objects\<close>

lemma batch_download_action_empty:
  assumes "map_of kvs (lit ''objects'') = Some (JArr [])"
  shows "batch_download_action (JObj kvs) = Inl (IndexError (lit ''list index out of range''))"
  using assms by (simp add: batch_download_action_def getitem_def getitem0_def)

lemma empty_objects_action:
  "batch_download_action (JObj [(lit ''objects'', JArr [])]) =
     Inl (IndexError (lit ''list index out of range''))"
  by (rule batch_download_action_empty) simp

lemma example_batch_empty:
  "get_lfs_downloand_info
     (example_world\<lparr>http := example_http p empty_objects_response d\<rparr>) example_globals
     (lit ''deadbeef'') (lit ''5'') =
   ([Log ''INFO'' (lit ''Get download info''),
     Request (batch_call example_globals (lit ''deadbeef'') 5)],
    Inl (IndexError (lit ''list index out of range'')))"
proof -
  have s: "resp_status_code empty_objects_response = 200"
    by (simp add: empty_objects_response_def ok_response_def)
  have j: "resp_json empty_objects_response = Inr (JObj [(lit ''objects'', JArr [])])"
    by (simp add: empty_objects_response_def)
  show ?thesis
    unfolding example_batch [OF s] j by (simp add: empty_objects_action)
qed

text \<open>
  C5 (as amended). For every batch answer that is not an HTTP error and whose body decodes
  to an object with an empty "objects" array, \<open>get_lfs_downloand_info\<close> raises, after the
  batch request, the \<open>IndexError\<close> "list index out of range" of \<open>data['objects'][0]\<close>: the
  first object is taken unconditionally, and no other error is raised in its place.
\<close>

theorem get_lfs_downloand_info_empty_objects:
  assumes "py_int w sz = Inr n"
      and "http w (batch_call g oid n) = Inr resp"
      and "raise_for_status resp = None"
      and "resp_json resp = Inr (JObj kvs)"
      and "map_of kvs (lit ''objects'') = Some (JArr [])"
  shows "get_lfs_downloand_info w g oid sz =
     ([Log ''INFO'' (lit ''Get download info''), Request (batch_call g oid n)],
      Inl (IndexError (lit ''list index out of range'')))"
  unfolding get_lfs_downloand_info_answered [OF assms(1-3)] assms(4)
  by (simp add: batch_download_action_empty [OF assms(5)])

theorem get_lfs_downloand_info_empty_objects_witness:
  "get_lfs_downloand_info world_empty_objects example_globals (lit ''deadbeef'') (lit ''5'') =
     ([Log ''INFO'' (lit ''Get download info''),
       Request (batch_call example_globals (lit ''deadbeef'') 5)],
      Inl (IndexError (lit ''list index out of range'')))"
proof -
  have i: "py_int world_empty_objects (lit ''5'') = Inr 5"
    unfolding world_empty_objects_def by (rule example_py_int)
  have h: "http world_empty_objects (batch_call example_globals (lit ''deadbeef'') 5) =
      Inr empty_objects_response"
    by (simp add: world_empty_objects_def example_http_def batch_call_def request_params_def
        lit_def)
  have r: "raise_for_status empty_objects_response = None"
    by (rule raise_for_status_ok) (simp add: empty_objects_response_def ok_response_def)
  have j: "resp_json empty_objects_response = Inr (JObj [(lit ''objects'', JArr [])])"
    by (simp add: empty_objects_response_def)
  have m: "map_of [(lit ''objects'', JArr [])] (lit ''objects'') = Some (JArr [])"
    by simp
  show ?thesis
    by (rule get_lfs_downloand_info_empty_objects [OF i h r j m])
qed

text \<open>
  C5 as stated fails: for the batch answer \<open>{"objects": []}\<close> the error raised is the
  index-out-of-range failure itself, an \<open>IndexError\<close> whose whole message is "list index
  out of range".
\<close>

theorem get_lfs_downloand_info_counterexample:
  "resp_json empty_objects_response = Inr (JObj [(lit ''objects'', JArr [])]) \<and>
   snd (get_lfs_downloand_info world_empty_objects example_globals (lit ''deadbeef'') (lit ''5'')) =
     Inl (IndexError (lit ''list index out of range'')) \<and>
   type_name (IndexError (lit ''list index out of range'')) = lit ''IndexError''"
proof -
  have j: "resp_json empty_objects_response = Inr (JObj [(lit ''objects'', JArr [])])"
    by (simp add: empty_objects_response_def)
  have g: "snd (get_lfs_downloand_info world_empty_objects example_globals (lit ''deadbeef'')
      (lit ''5'')) = Inl (IndexError (lit ''list index out of range''))"
    unfolding world_empty_objects_def example_batch_empty by simp
  have t: "type_name (IndexError (lit ''list index out of range'')) = lit ''IndexError''"
    by (simp add: type_name_def IndexError_def builtin_def)
  from j g t show ?thesis by (intro conjI)
qed

subsection \<open>Whole runs of the example environment\<close>

lemma isinstance_IndexError: "isinstance (IndexError m) cls_Exception"
  by (simp add: exc_defs cls_defs)

lemma isinstance_KeyError_Exception: "isinstance (KeyError r) cls_Exception"
  by (simp add: exc_defs cls_defs)

lemma exc_str_IndexError: "exc_str (IndexError m) = m"
  by (simp add: IndexError_def)

lemma exc_str_RuntimeError: "exc_str (RuntimeError m) = m"
  by (simp add: RuntimeError_def)

lemma seq_raised: "m = (es, Inl e) \<Longrightarrow> seq m f = (es, Inl e)"
  by (simp add: seq_def)

lemma seq_returned: "m = (es, Inr x) \<Longrightarrow> f x = (es', r) \<Longrightarrow> seq m f = (es @ es', r)"
  by (simp add: seq_def)

lemma example_batch_ok:
  "get_lfs_downloand_info (example_world\<lparr>http := example_http p batch_response d\<rparr>)
     example_globals (lit ''deadbeef'') (lit ''5'') =
   ([Log ''INFO'' (lit ''Get download info''),
     Request (batch_call example_globals (lit ''deadbeef'') 5)],
    Inr (JStr (lit ''https://storage/x''), JObj []))"
proof -
  have s: "resp_status_code batch_response = 200"
    by (simp add: batch_response_def ok_response_def)
  have a: "(case resp_json batch_response of Inl e \<Rightarrow> Inl e
            | Inr data \<Rightarrow> batch_download_action data) =
      Inr (JStr (lit ''https://storage/x''), JObj [])"
    by (simp add: batch_response_def batch_download_action_def getitem_def getitem0_def lit_def)
  show ?thesis
    unfolding example_batch [OF s] a by (rule refl)
qed

lemma example_not_found:
  "get_lfs_meta (example_world\<lparr>http := example_http not_found_response b d\<rparr>) example_globals =
     ([Log ''INFO'' (lit ''Get LFS meta-data''), Request example_meta_call],
      Inl (RuntimeError (lit ''Client Error: 404 Client Error: Not Found for url: http://gitlab.example.com/raw'')))"
proof -
  have r: "raise_for_status not_found_response =
      Some (HTTPError (lit ''404 Client Error: Not Found for url: http://gitlab.example.com/raw'') 404)"
    using raise_for_status_4xx [of not_found_response]
    by (simp add: not_found_response_def ok_response_def str_int_404 lit_def)
  have h: "request_handlers
      (HTTPError (lit ''404 Client Error: Not Found for url: http://gitlab.example.com/raw'') 404) =
      Inl (RuntimeError (lit ''Client Error: 404 Client Error: Not Found for url: http://gitlab.example.com/raw''))"
    by (simp add: HTTPError_handlers lit_def)
  show ?thesis
    unfolding example_meta r by (simp add: h)
qed

lemma example_run_not_found:
  "run world_404 =
     ([Log ''INFO'' (lit ''Get LFS meta-data''), Request example_meta_call,
       Log ''ERROR'' (lit ''Unexpected Error: Client Error: 404 Client Error: Not Found for url: http://gitlab.example.com/raw'')],
      Exit 0)"
proof -
  let ?w = "example_world\<lparr>http := example_http not_found_response batch_response download_response\<rparr>"
  let ?m = "lit ''Client Error: 404 Client Error: Not Found for url: http://gitlab.example.com/raw''"
  have b: "main_body ?w (lit ''gitlab.example.com'', lit ''tok'', lit ''Basic dXNlcjpwYXNz'') =
      ([Log ''INFO'' (lit ''Get LFS meta-data''), Request example_meta_call],
       Inl (RuntimeError ?m))"
    unfolding example_main_body by (rule seq_raised) (rule example_not_found)
  have l: "lit ''Unexpected Error: '' @ ?m =
      lit ''Unexpected Error: Client Error: 404 Client Error: Not Found for url: http://gitlab.example.com/raw''"
    by (simp add: lit_def)
  show ?thesis
    unfolding world_404_def example_run
    using main_try_raised [OF b isinstance_RuntimeError]
    by (simp add: exc_str_RuntimeError l)
qed

lemma example_run_empty_objects:
  "run world_empty_objects =
     ([Log ''INFO'' (lit ''Get LFS meta-data''), Request example_meta_call,
       Log ''INFO'' (lit ''Get download info''),
       Request (batch_call example_globals (lit ''deadbeef'') 5),
       Log ''ERROR'' (lit ''Unexpected Error: list index out of range'')],
      Exit 0)"
proof -
  let ?w = "example_world\<lparr>http := example_http pointer_response empty_objects_response download_response\<rparr>"
  have i: "seq (get_lfs_downloand_info ?w example_globals (lit ''deadbeef'') (lit ''5''))
        (\<lambda>(href, header). dl_target_file ?w href header example_out) =
      ([Log ''INFO'' (lit ''Get download info''),
        Request (batch_call example_globals (lit ''deadbeef'') 5)],
       Inl (IndexError (lit ''list index out of range'')))"
    by (rule seq_raised) (rule example_batch_empty)
  have b: "main_body ?w (lit ''gitlab.example.com'', lit ''tok'', lit ''Basic dXNlcjpwYXNz'') =
      ([Log ''INFO'' (lit ''Get LFS meta-data''), Request example_meta_call] @
       [Log ''INFO'' (lit ''Get download info''),
        Request (batch_call example_globals (lit ''deadbeef'') 5)],
       Inl (IndexError (lit ''list index out of range'')))"
    unfolding example_main_body
    by (rule seq_returned [OF example_meta_ok]) (simp add: i)
  have l: "lit ''Unexpected Error: '' @ lit ''list index out of range'' =
      lit ''Unexpected Error: list index out of range''"
    by (simp add: lit_def)
  show ?thesis
    unfolding world_empty_objects_def example_run
    using main_try_raised [OF b isinstance_IndexError]
    by (simp add: exc_str_IndexError l)
qed

lemma example_quoted_content_length:
  "lit ''Unexpected Error: '' @ exc_str (KeyError (quoted (lit ''content-length''))) =
     lit ''Unexpected Error: '' @ [39] @ lit ''content-length'' @ [39]"
  by (simp add: exc_str_KeyError quoted_def lit_def)

lemma example_run_no_length:
  "run world_no_length =
     ([Log ''INFO'' (lit ''Get LFS meta-data''), Request example_meta_call,
       Log ''INFO'' (lit ''Get download info''),
       Request (batch_call example_globals (lit ''deadbeef'') 5),
       Log ''INFO'' (lit ''Download file: https://storage/x''), Request example_download_call,
       Log ''ERROR'' (lit ''Unexpected Error: '' @ [39] @ lit ''content-length'' @ [39])],
      Exit 0)"
proof -
  let ?w = "example_world\<lparr>http := example_http pointer_response batch_response no_length_response\<rparr>"
  have i: "seq (get_lfs_downloand_info ?w example_globals (lit ''deadbeef'') (lit ''5''))
        (\<lambda>(href, header). dl_target_file ?w href header example_out) =
      ([Log ''INFO'' (lit ''Get download info''),
        Request (batch_call example_globals (lit ''deadbeef'') 5)] @
       [Log ''INFO'' (lit ''Download file: https://storage/x''), Request example_download_call],
       Inl (KeyError (quoted (lit ''content-length''))))"
    by (rule seq_returned [OF example_batch_ok]) (simp add: example_dl_no_length)
  have b: "main_body ?w (lit ''gitlab.example.com'', lit ''tok'', lit ''Basic dXNlcjpwYXNz'') =
      ([Log ''INFO'' (lit ''Get LFS meta-data''), Request example_meta_call] @
       [Log ''INFO'' (lit ''Get download info''),
        Request (batch_call example_globals (lit ''deadbeef'') 5)] @
       [Log ''INFO'' (lit ''Download file: https://storage/x''), Request example_download_call],
       Inl (KeyError (quoted (lit ''content-length''))))"
    unfolding example_main_body
    by (rule seq_returned [OF example_meta_ok]) (simp add: i)
  show ?thesis
    unfolding world_no_length_def example_run
    using main_try_raised [OF b isinstance_KeyError_Exception]
    by (simp add: example_quoted_content_length)
qed


text \<open>
  C4. The claim does not hold of the code. The handler of the final \<open>try\<close> (lines 204 to
  205) logs the error and the script ends there, so the exit status is 0, whichever of
  the three stages raised: the pointer fetch (status 404), the batch negotiation (no
  object in the answer) or the download (no Content-Length header). The handlers of the
  configuration \<open>try\<close> (lines 40 to 45) call \<open>sys.exit(1)\<close> after logging.
\<close>

theorem run_failure_exit_status:
  "run world_404 =
     ([Log ''INFO'' (lit ''Get LFS meta-data''), Request example_meta_call,
       Log ''ERROR'' (lit ''Unexpected Error: Client Error: 404 Client Error: Not Found for url: http://gitlab.example.com/raw'')],
      Exit 0) \<and>
   run world_empty_objects =
     ([Log ''INFO'' (lit ''Get LFS meta-data''), Request example_meta_call,
       Log ''INFO'' (lit ''Get download info''),
       Request (batch_call example_globals (lit ''deadbeef'') 5),
       Log ''ERROR'' (lit ''Unexpected Error: list index out of range'')],
      Exit 0) \<and>
   run world_no_length =
     ([Log ''INFO'' (lit ''Get LFS meta-data''), Request example_meta_call,
       Log ''INFO'' (lit ''Get download info''),
       Request (batch_call example_globals (lit ''deadbeef'') 5),
       Log ''INFO'' (lit ''Download file: https://storage/x''), Request example_download_call,
       Log ''ERROR'' (lit ''Unexpected Error: '' @ [39] @ lit ''content-length'' @ [39])],
      Exit 0)"
  using example_run_not_found example_run_empty_objects example_run_no_length
  by (intro conjI)

subsection \<open>The URL of the pointer request\<close>

lemma quote_plus_space: "quote_plus (lit ''my group/proj'') = Inr (lit ''my+group%2Fproj'')"
  by (simp add: quote_plus_def quote_def utf8_encode_def lit_def is_surrogate_def utf8_char_def
      quote_byte_def always_safe_def hex_upper_def)

lemma quote_file: "quote (lit ''docs/my file.bin'') [] = Inr (lit ''docs%2Fmy%20file.bin'')"
  by (simp add: quote_def utf8_encode_def lit_def is_surrogate_def utf8_char_def
      quote_byte_def always_safe_def hex_upper_def)

text \<open>
  C3. The claim does not hold of the code for the file path. Line 119 passes the project
  through \<open>quote_plus\<close> and puts the file path into the URL as it was given on the command
  line: for project \<open>my group/proj\<close> and file \<open>docs/my file.bin\<close> the project becomes
  \<open>my+group%2Fproj\<close>, and the slash and the space of the file path stay, where
  percent-encoding gives \<open>docs%2Fmy%20file.bin\<close>.
\<close>

theorem get_lfs_meta_url_file_verbatim:
  "get_lfs_meta_url (example_globals\<lparr>PROJECT := lit ''my group/proj'',
                                     FILE := lit ''docs/my file.bin''\<rparr>) =
     Inr (lit ''http://gitlab.example.com/api/v4/projects/my+group%2Fproj/repository/files/docs/my file.bin/raw?ref=main'') \<and>
   quote (lit ''docs/my file.bin'') [] = Inr (lit ''docs%2Fmy%20file.bin'') \<and>
   lit ''docs/my file.bin'' \<noteq> lit ''docs%2Fmy%20file.bin''"
proof -
  have u: "get_lfs_meta_url (example_globals\<lparr>PROJECT := lit ''my group/proj'',
                                     FILE := lit ''docs/my file.bin''\<rparr>) =
     Inr (lit ''http://gitlab.example.com/api/v4/projects/my+group%2Fproj/repository/files/docs/my file.bin/raw?ref=main'')"
    by (simp add: get_lfs_meta_url_def quote_plus_space example_globals_def) (simp add: lit_def)
  have n: "lit ''docs/my file.bin'' \<noteq> lit ''docs%2Fmy%20file.bin''"
    by (simp add: lit_def)
  from u quote_file n show ?thesis by (intro conjI)
qed

subsection \<open>Certificate verification of the requests\<close>




















end
